theory Spec2Isabelle
  imports Main
begin

section \<open>Go standard library: package path\<close>

text \<open>
  Go strings are byte sequences; they are modelled as \<open>string\<close> (a list of \<open>char\<close>).
  The functions of package \<open>path\<close> that \<open>URLToReportFormat\<close> and the search pager call
  are purely lexical and are modelled by what they compute.
\<close>

definition slash :: char where
  "slash = CHR ''/''"

text \<open>\<open>path.Split\<close>: the path is cut right after its final slash; without a slash the
  directory part is empty.\<close>

definition path_Split :: "string \<Rightarrow> string \<times> string" where
  "path_Split p =
     (rev (dropWhile (\<lambda>c. c \<noteq> slash) (rev p)), rev (takeWhile (\<lambda>c. c \<noteq> slash) (rev p)))"

text \<open>\<open>strings.Split(p, "/")\<close>: the elements between slashes, empty ones included.\<close>

fun split_slash :: "string \<Rightarrow> string list" where
  "split_slash [] = [[]]"
| "split_slash (c # cs) =
     (if c = slash then [] # split_slash cs
      else (case split_slash cs of e # es \<Rightarrow> (c # e) # es | [] \<Rightarrow> [[c]]))"

fun join_slash :: "string list \<Rightarrow> string" where
  "join_slash [] = []"
| "join_slash [e] = e"
| "join_slash (e # es) = e @ slash # join_slash es"

text \<open>
  The element loop of \<open>path.Clean\<close>. The output buffer is kept as a stack of elements
  (last element first). Empty elements and \<open>.\<close> are skipped; \<open>..\<close> removes the last real
  element when there is one, is dropped at the root of a rooted path, and is appended
  to a leading run of \<open>..\<close> otherwise.
\<close>

fun clean_elems :: "bool \<Rightarrow> string list \<Rightarrow> string list \<Rightarrow> string list" where
  "clean_elems rooted out [] = rev out"
| "clean_elems rooted out (e # es) =
     (if e = [] \<or> e = ''.'' then clean_elems rooted out es
      else if e = ''..'' then
        (case out of
           [] \<Rightarrow> if rooted then clean_elems rooted [] es else clean_elems rooted [''..''] es
         | t # ts \<Rightarrow> if t = ''..'' then clean_elems rooted (''..'' # out) es
                     else clean_elems rooted ts es)
      else clean_elems rooted (e # out) es)"

definition path_Clean :: "string \<Rightarrow> string" where
  "path_Clean p =
     (if p = [] then ''.''
      else let rooted = (hd p = slash);
               body = join_slash (clean_elems rooted [] (split_slash p));
               out = (if rooted then slash # body else body)
           in if out = [] then ''.'' else out)"

definition path_Dir :: "string \<Rightarrow> string" where
  "path_Dir p = path_Clean (fst (path_Split p))"

text \<open>\<open>path.Base\<close>: trailing slashes are removed, then everything up to the last slash.\<close>

definition path_Base :: "string \<Rightarrow> string" where
  "path_Base p =
     (if p = [] then ''.''
      else let q = rev (dropWhile (\<lambda>c. c = slash) (rev p));
               b = snd (path_Split q)
           in if b = [] then ''/'' else b)"

section \<open>Report formats and the classifier\<close>

datatype ReportFormat =
    AnnualFormat
  | DueDateExtensionFormat
  | PTRFormat
  | BlindTrustFormat
  | OtherDocumentFormat
  | PaperFormat
  | UnknownFormat

record URL =
  Scheme :: string
  Host :: string
  Path :: string
  RawQuery :: string
  Fragment :: string

definition URLToReportFormat :: "URL \<Rightarrow> ReportFormat" where
  "URLToReportFormat link =
     (let (dir0, file) = path_Split (Path link);
          dir = (if file = [] then path_Dir (path_Dir dir0) else dir0);
          b = path_Base dir
      in if b = ''ptr'' then PTRFormat
         else if b = ''annual'' then AnnualFormat
         else if b = ''paper'' then PaperFormat
         else if b = ''regular'' then
           (if path_Base (path_Dir dir) = ''extension-notice''
            then DueDateExtensionFormat else UnknownFormat)
         else UnknownFormat)"

section \<open>Data model\<close>

text \<open>
  Every error value the client can return. \<open>LibraryError\<close> stands for an error handed
  back by a library call (transport, URL, date, HTML or JSON parsing); the three
  messages are the ones the client creates itself; \<open>NilPointerPanic\<close> is the run-time
  panic of a method call through a nil pointer.
\<close>

datatype error =
    LibraryError string
  | Non200Status
  | CsrfTokenNotFound
  | ContentTypeNotJSON
  | SearchErrorStatus
  | NilPointerPanic

text \<open>A \<open>time.Time\<close> is an instant; the zero value of the type is \<open>zero_time\<close>.\<close>

datatype gotime = Instant int

definition zero_time :: gotime where
  "zero_time = Instant 0"

record SearchResults =
  Draw :: int
  RecordsTotal :: int
  RecordsFiltered :: int
  Data :: "string list list"
  Result :: string

text \<open>Pointer fields (\<open>*url.URL\<close>) are options: \<open>None\<close> is nil.\<close>

record SearchResult =
  sr_FirstName :: string
  sr_LastName :: string
  sr_FullName :: string
  sr_FileURL :: "URL option"
  sr_ReportName :: string
  sr_ReportFormat :: ReportFormat
  sr_ReportID :: string
  sr_DateSubmitted :: gotime
  sr_Valid :: bool

definition SearchResult_zero :: SearchResult where
  "SearchResult_zero =
     \<lparr>sr_FirstName = [], sr_LastName = [], sr_FullName = [], sr_FileURL = None,
      sr_ReportName = [], sr_ReportFormat = AnnualFormat, sr_ReportID = [],
      sr_DateSubmitted = zero_time, sr_Valid = False\<rparr>"

record Transaction =
  tx_Date :: gotime
  tx_Owner :: string
  tx_Ticker :: string
  tx_AssetName :: string
  tx_AssetType :: string
  tx_Type :: string
  tx_Amount :: string
  tx_Comment :: string
  tx_Valid :: bool

definition Transaction_zero :: Transaction where
  "Transaction_zero =
     \<lparr>tx_Date = zero_time, tx_Owner = [], tx_Ticker = [], tx_AssetName = [],
      tx_AssetType = [], tx_Type = [], tx_Amount = [], tx_Comment = [], tx_Valid = False\<rparr>"

record PaperReport =
  PageURLs :: "URL option list"

text \<open>A slice field may be nil: \<open>pr_Transactions\<close> is \<open>None\<close> for the nil slice (the zero value
  of a \<open>ParsedReport\<close>, and what a handler returns that never allocated its slice).\<close>

record ParsedReport =
  pr_ReportFormat :: ReportFormat
  pr_Transactions :: "Transaction list option"
  pr_Pages :: PaperReport

record anchorData =
  HREF :: string
  Target :: string
  Text :: string

datatype cellType =
    ignoreCell
  | trNumCell
  | trDateCell
  | ownerCell
  | tickerCell
  | assetNameCell
  | assetTypeCell
  | trTypeCell
  | amountCell
  | commentCell
  | validCell

section \<open>What the HTML library hands to the client\<close>

text \<open>
  The client never walks markup itself: it asks goquery for selections and reads them.
  A document is therefore modelled by the answers to the queries the client makes.
  A \<open>cell\<close> is the outcome of \<open>Html()\<close> on one selected node (its inner markup, or an
  error); a table row is the list of its \<open>td\<close> children; \<open>first_a\<close> is what
  \<open>Find("a").First()\<close> selects (the attributes are absent, and the text empty, when
  nothing is selected).
\<close>

type_synonym cell = "error + string"

datatype first_a = first_a (a_href: "string option") (a_target: "string option") (a_text: string)

record annual_hdr =
  hdr_html :: cell
  hdr_section_rows :: "cell list list"

record html_doc =
  doc_csrf_fields :: "string option list"
  doc_table_rows :: "cell list list"
  doc_headings :: "annual_hdr list"
  doc_filing_images :: "string option list"

type_synonym cookie = "string \<times> string"

text \<open>
  The library functions whose results the client only passes on are parameters of the
  model: every theorem below holds for any behaviour of them.
\<close>

record golib =
  time_Parse :: "string \<Rightarrow> string \<Rightarrow> error + gotime"
  time_Month :: "gotime \<Rightarrow> int"
  time_Day :: "gotime \<Rightarrow> int"
  time_Year :: "gotime \<Rightarrow> int"
  url_Parse :: "string \<Rightarrow> error + URL"
  url_String :: "URL \<Rightarrow> string"
  url_ResolveReference :: "URL \<Rightarrow> URL \<Rightarrow> URL"
  url_Values_Encode :: "(string \<times> string) list \<Rightarrow> string"
  strings_ToLower :: "string \<Rightarrow> string"
  strings_TrimSpace :: "string \<Rightarrow> string"
  goquery_first_a :: "string \<Rightarrow> error + first_a"
  goquery_document :: "string \<Rightarrow> error + html_doc"
  json_Decode :: "string \<Rightarrow> error + SearchResults"
  json_coerce_string :: "string \<Rightarrow> string"
  time_MarshalJSON :: "gotime \<Rightarrow> error + string"
  time_UnmarshalJSON :: "string \<Rightarrow> error + gotime"
  http_NewRequest_error :: "string \<Rightarrow> string \<Rightarrow> error option"
  rand_Intn :: "nat \<Rightarrow> nat \<Rightarrow> nat"
  jar_Cookies :: "cookie list \<Rightarrow> string \<Rightarrow> cookie list"
  jar_SetCookies :: "cookie list \<Rightarrow> string \<Rightarrow> cookie list \<Rightarrow> cookie list"

section \<open>HTML text normalizer\<close>

text \<open>
  \<open>regexp `<.*?>`\<close>, replaced by one space: from a \<open><\<close> the match runs to the first
  \<open>>\<close>, and there is none when a newline comes first (\<open>.\<close> does not match a newline).
\<close>

fun tag_end :: "string \<Rightarrow> string option" where
  "tag_end [] = None"
| "tag_end (c # cs) =
     (if c = CHR ''>'' then Some cs
      else if c = CHR 0x0A then None
      else tag_end cs)"

function replace_tags :: "string \<Rightarrow> string" where
  "replace_tags [] = []"
| "replace_tags (c # cs) =
     (if c = CHR ''<'' then
        (case tag_end cs of
           Some rest \<Rightarrow> CHR '' '' # replace_tags rest
         | None \<Rightarrow> c # replace_tags cs)
      else c # replace_tags cs)"
  by pat_completeness auto
termination
proof (relation "measure length")
  show "wf (measure length)" by simp
next
  fix c :: char and cs rest :: string
  assume "tag_end cs = Some rest"
  moreover have "\<And>r. tag_end cs = Some r \<Longrightarrow> length r < Suc (length cs)"
    by (induction cs) (auto split: if_splits)
  ultimately show "(rest, c # cs) \<in> measure length" by auto
qed auto

text \<open>\<open>regexp `\s+`\<close>, replaced by one space; \<open>\s\<close> is tab, newline, form feed, carriage
  return and space.\<close>

definition is_space :: "char \<Rightarrow> bool" where
  "is_space c = (c = CHR 0x09 \<or> c = CHR 0x0A \<or> c = CHR 0x0C \<or> c = CHR 0x0D \<or> c = CHR '' '')"

function collapse_space :: "string \<Rightarrow> string" where
  "collapse_space [] = []"
| "collapse_space (c # cs) =
     (if is_space c then CHR '' '' # collapse_space (dropWhile is_space cs)
      else c # collapse_space cs)"
  by pat_completeness auto
termination
  by (relation "measure length") (auto simp: less_Suc_eq_le length_dropWhile_le)

definition trimHTMLSelection :: "golib \<Rightarrow> cell \<Rightarrow> error + string" where
  "trimHTMLSelection lib s =
     (case s of Inl err \<Rightarrow> Inl err
      | Inr htmlString \<Rightarrow> Inr (strings_TrimSpace lib htmlString))"

definition stripHTMLSelection :: "golib \<Rightarrow> cell \<Rightarrow> error + string" where
  "stripHTMLSelection lib s =
     (case trimHTMLSelection lib s of Inl err \<Rightarrow> Inl err
      | Inr htmlString \<Rightarrow> Inr (collapse_space htmlString))"

definition removeHTMLSelection :: "golib \<Rightarrow> cell \<Rightarrow> error + string" where
  "removeHTMLSelection lib s =
     (case s of Inl err \<Rightarrow> Inl err
      | Inr htmlString \<Rightarrow>
          Inr (collapse_space (strings_TrimSpace lib (replace_tags htmlString))))"

definition attr_or_empty :: "string option \<Rightarrow> string" where
  "attr_or_empty a = (case a of None \<Rightarrow> [] | Some v \<Rightarrow> v)"

definition parseAnchor :: "golib \<Rightarrow> string \<Rightarrow> error + anchorData" where
  "parseAnchor lib tag =
     (case goquery_first_a lib tag of Inl err \<Rightarrow> Inl err
      | Inr a \<Rightarrow>
          Inr \<lparr>HREF = attr_or_empty (a_href a), Target = attr_or_empty (a_target a),
               Text = a_text a\<rparr>)"

section \<open>Table extractor: one cell\<close>

text \<open>
  The client as the code holds it. The cookie jar is a shared object: the client's
  \<open>jar\<close> field and the \<open>Jar\<close> field of its HTTP client point to the same jar, so both
  hold its address and the jar's contents live in the heap of the \<open>world\<close> below.
\<close>

type_synonym jar_addr = nat

record http_Client =
  Jar :: "jar_addr option"

record EFDClient =
  jar :: jar_addr
  client :: http_Client
  baseURL :: URL
  homeURL :: URL
  searchURL :: URL
  searchDataURL :: URL
  userAgent :: string
  dateLayout :: string
  authed :: bool

text \<open>
  \<open>handleTransactionCell\<close> writes through a pointer to the transaction; the model
  returns the transaction as written together with the boolean result. A failed
  \<open>time.Parse\<close> stores the zero time it returns.
\<close>

fun handleTransactionCell ::
  "golib \<Rightarrow> EFDClient \<Rightarrow> Transaction \<Rightarrow> cell \<Rightarrow> cellType \<Rightarrow> bool \<times> Transaction" where
  "handleTransactionCell lib c transaction t trNumCell = (True, transaction)"
| "handleTransactionCell lib c transaction t trDateCell =
     (case removeHTMLSelection lib t of Inl err \<Rightarrow> (False, transaction)
      | Inr tString \<Rightarrow>
          (case time_Parse lib (dateLayout c) tString of
             Inl err \<Rightarrow> (False, transaction\<lparr>tx_Date := zero_time\<rparr>)
           | Inr d \<Rightarrow> (True, transaction\<lparr>tx_Date := d\<rparr>)))"
| "handleTransactionCell lib c transaction t ownerCell =
     (case removeHTMLSelection lib t of Inl err \<Rightarrow> (False, transaction)
      | Inr tString \<Rightarrow> (True, transaction\<lparr>tx_Owner := tString\<rparr>))"
| "handleTransactionCell lib c transaction t tickerCell =
     (case stripHTMLSelection lib t of Inl err \<Rightarrow> (False, transaction)
      | Inr tString \<Rightarrow>
          if tString = ''--'' then (True, transaction\<lparr>tx_Ticker := tString\<rparr>)
          else (case parseAnchor lib tString of Inl err \<Rightarrow> (False, transaction)
                | Inr anchor \<Rightarrow>
                    if Text anchor = [] then (False, transaction)
                    else (True, transaction\<lparr>tx_Ticker := Text anchor\<rparr>)))"
| "handleTransactionCell lib c transaction t assetNameCell =
     (case removeHTMLSelection lib t of Inl err \<Rightarrow> (False, transaction)
      | Inr tString \<Rightarrow> (True, transaction\<lparr>tx_AssetName := tString\<rparr>))"
| "handleTransactionCell lib c transaction t assetTypeCell =
     (case removeHTMLSelection lib t of Inl err \<Rightarrow> (False, transaction)
      | Inr tString \<Rightarrow> (True, transaction\<lparr>tx_AssetType := tString\<rparr>))"
| "handleTransactionCell lib c transaction t trTypeCell =
     (case removeHTMLSelection lib t of Inl err \<Rightarrow> (False, transaction)
      | Inr tString \<Rightarrow> (True, transaction\<lparr>tx_Type := tString\<rparr>))"
| "handleTransactionCell lib c transaction t amountCell =
     (case removeHTMLSelection lib t of Inl err \<Rightarrow> (False, transaction)
      | Inr tString \<Rightarrow> (True, transaction\<lparr>tx_Amount := tString\<rparr>))"
| "handleTransactionCell lib c transaction t commentCell =
     (case removeHTMLSelection lib t of Inl err \<Rightarrow> (False, transaction)
      | Inr tString \<Rightarrow> (True, transaction\<lparr>tx_Comment := tString\<rparr>))"
| "handleTransactionCell lib c transaction t validCell = (True, transaction\<lparr>tx_Valid := True\<rparr>)"
| "handleTransactionCell lib c transaction t ignoreCell = (True, transaction)"

section \<open>Iteration and the in-place filter\<close>

text \<open>goquery's \<open>Each\<close> and \<open>EachWithBreak\<close>: the callback gets the index and the element;
  \<open>EachWithBreak\<close> stops at the first callback that returns false.\<close>

fun Each :: "(nat \<Rightarrow> 'a \<Rightarrow> 's \<Rightarrow> 's) \<Rightarrow> nat \<Rightarrow> 'a list \<Rightarrow> 's \<Rightarrow> 's" where
  "Each f i [] s = s"
| "Each f i (x # xs) s = Each f (Suc i) xs (f i x s)"

fun EachWithBreak :: "(nat \<Rightarrow> 'a \<Rightarrow> 's \<Rightarrow> bool \<times> 's) \<Rightarrow> nat \<Rightarrow> 'a list \<Rightarrow> 's \<Rightarrow> 's" where
  "EachWithBreak f j [] s = s"
| "EachWithBreak f j (t # ts) s =
     (case f j t s of (True, s') \<Rightarrow> EachWithBreak f (Suc j) ts s' | (False, s') \<Rightarrow> s')"

text \<open>
  The handlers filter a slice into its own backing array:
  \<^verbatim>\<open>filtered := xs[:0]; for _, record := range xs { if record.Valid { filtered = append(filtered, record) } }\<close>
  The range reads element \<open>i\<close> of the array at step \<open>i\<close>; \<open>append\<close> writes at the current
  length \<open>k\<close> of \<open>filtered\<close> in the same array. The state is the array and \<open>k\<close>.
\<close>

definition filter_step :: "('a \<Rightarrow> bool) \<Rightarrow> nat \<Rightarrow> 'a list \<times> nat \<Rightarrow> 'a list \<times> nat" where
  "filter_step keep i st =
     (let record = fst st ! i
      in if keep record then ((fst st)[snd st := record], Suc (snd st)) else st)"

definition filter_in_place :: "('a \<Rightarrow> bool) \<Rightarrow> 'a list \<Rightarrow> 'a list" where
  "filter_in_place keep xs =
     (let st = fold (filter_step keep) [0..<length xs] (xs, 0) in take (snd st) (fst st))"

section \<open>Table extractor: PTR, Annual and Paper documents\<close>

text \<open>The column switch of \<open>HandlePTRSearchResult\<close>; the comment column also sets the
  validity flag.\<close>

definition comment_and_valid ::
  "golib \<Rightarrow> EFDClient \<Rightarrow> cell \<Rightarrow> Transaction \<Rightarrow> bool \<times> Transaction" where
  "comment_and_valid lib c t transaction =
     (case handleTransactionCell lib c transaction t commentCell of
        (True, tr) \<Rightarrow> (True, snd (handleTransactionCell lib c tr t validCell))
      | (False, tr) \<Rightarrow> (False, tr))"

definition ptr_cell :: "golib \<Rightarrow> EFDClient \<Rightarrow> nat \<Rightarrow> cell \<Rightarrow> Transaction \<Rightarrow> bool \<times> Transaction" where
  "ptr_cell lib c j t transaction =
     (if j = 1 then handleTransactionCell lib c transaction t trDateCell
      else if j = 2 then handleTransactionCell lib c transaction t ownerCell
      else if j = 3 then handleTransactionCell lib c transaction t tickerCell
      else if j = 4 then handleTransactionCell lib c transaction t assetNameCell
      else if j = 5 then handleTransactionCell lib c transaction t assetTypeCell
      else if j = 6 then handleTransactionCell lib c transaction t trTypeCell
      else if j = 7 then handleTransactionCell lib c transaction t amountCell
      else if j = 8 then comment_and_valid lib c t transaction
      else (True, transaction))"

definition annual4a_cell :: "golib \<Rightarrow> EFDClient \<Rightarrow> nat \<Rightarrow> cell \<Rightarrow> Transaction \<Rightarrow> bool \<times> Transaction" where
  "annual4a_cell lib c j t transaction =
     (if j = 0 then (True, transaction)
      else if j = 1 then (True, transaction)
      else if j = 2 then handleTransactionCell lib c transaction t trDateCell
      else if j = 3 then handleTransactionCell lib c transaction t ownerCell
      else if j = 4 then handleTransactionCell lib c transaction t tickerCell
      else if j = 5 then handleTransactionCell lib c transaction t assetNameCell
      else if j = 6 then handleTransactionCell lib c transaction t trTypeCell
      else if j = 7 then handleTransactionCell lib c transaction t amountCell
      else if j = 8 then comment_and_valid lib c t transaction
      else (True, transaction))"

definition annual4b_cell :: "golib \<Rightarrow> EFDClient \<Rightarrow> nat \<Rightarrow> cell \<Rightarrow> Transaction \<Rightarrow> bool \<times> Transaction" where
  "annual4b_cell lib c j t transaction =
     (if j = 0 then (True, transaction)
      else if j = 1 then (True, transaction)
      else if j = 2 then handleTransactionCell lib c transaction t ownerCell
      else if j = 3 then handleTransactionCell lib c transaction t tickerCell
      else if j = 4 then handleTransactionCell lib c transaction t assetNameCell
      else if j = 5 then handleTransactionCell lib c transaction t trTypeCell
      else if j = 6 then handleTransactionCell lib c transaction t trDateCell
      else if j = 7 then handleTransactionCell lib c transaction t amountCell
      else if j = 8 then comment_and_valid lib c t transaction
      else (True, transaction))"

text \<open>
  The row callback: element \<open>i\<close> of the pre-allocated slice is written through a pointer
  while the cells of the row are visited; a row that does not have nine cells leaves it
  untouched.
\<close>

definition table_row ::
  "(nat \<Rightarrow> cell \<Rightarrow> Transaction \<Rightarrow> bool \<times> Transaction) \<Rightarrow> nat \<Rightarrow> cell list \<Rightarrow>
   Transaction list \<Rightarrow> Transaction list" where
  "table_row cellf i tds transactions =
     (if length tds \<noteq> 9 then transactions
      else transactions[i := EachWithBreak cellf 0 tds (transactions ! i)])"

definition table_rows ::
  "(nat \<Rightarrow> cell \<Rightarrow> Transaction \<Rightarrow> bool \<times> Transaction) \<Rightarrow> cell list list \<Rightarrow> Transaction list" where
  "table_rows cellf trs =
     Each (table_row cellf) 0 trs (replicate (length trs) Transaction_zero)"

text \<open>What \<open>HandlePTRSearchResult\<close> does with the rows that
  \<open>doc.Find("div.table-responsive table.table tbody tr")\<close> selected.\<close>

definition ptr_transactions :: "golib \<Rightarrow> EFDClient \<Rightarrow> cell list list \<Rightarrow> Transaction list" where
  "ptr_transactions lib c trs = filter_in_place tx_Valid (table_rows (ptr_cell lib c) trs)"

text \<open>
  The heading callback of \<open>HandleAnnualSearchResult\<close>. The state is the pair of slices
  \<open>ptrTransactions\<close>, \<open>regTransactions\<close>; an error of \<open>removeHTMLSelection\<close> is ignored and
  leaves the title empty.
\<close>

definition annual_heading ::
  "golib \<Rightarrow> EFDClient \<Rightarrow> nat \<Rightarrow> annual_hdr \<Rightarrow> Transaction list \<times> Transaction list \<Rightarrow>
   Transaction list \<times> Transaction list" where
  "annual_heading lib c i s st =
     (let title = (case removeHTMLSelection lib (hdr_html s) of Inl err \<Rightarrow> [] | Inr v \<Rightarrow> v)
      in if title = ''Part 4a. Periodic Transaction Report Summary''
         then (table_rows (annual4a_cell lib c) (hdr_section_rows s), snd st)
         else if title = ''Part 4b. Transactions''
         then (fst st, table_rows (annual4b_cell lib c) (hdr_section_rows s))
         else st)"

definition annual_transactions :: "golib \<Rightarrow> EFDClient \<Rightarrow> annual_hdr list \<Rightarrow> Transaction list" where
  "annual_transactions lib c hdrs =
     (let st = Each (annual_heading lib c) 0 hdrs ([], []);
          totalTransactions = fst st @ snd st
      in filter_in_place tx_Valid totalTransactions)"

text \<open>The image callback of \<open>HandlePaperSearchResult\<close>: an image without a \<open>src\<close>
  attribute, or whose \<open>src\<close> does not parse, returns without writing its slot.\<close>

definition paper_page :: "golib \<Rightarrow> nat \<Rightarrow> string option \<Rightarrow> URL option list \<Rightarrow> URL option list" where
  "paper_page lib i s pageURLs =
     (case s of None \<Rightarrow> pageURLs
      | Some pageURLString \<Rightarrow>
          (case url_Parse lib pageURLString of Inl err \<Rightarrow> pageURLs
           | Inr pageURL \<Rightarrow> pageURLs[i := Some pageURL]))"

definition paper_pages :: "golib \<Rightarrow> string option list \<Rightarrow> PaperReport" where
  "paper_pages lib pages =
     \<lparr>PageURLs = Each (paper_page lib) 0 pages (replicate (length pages) None)\<rparr>"

section \<open>Network, cookie jars and the session\<close>

text \<open>
  A request as the client builds it, and the record of one request as it went out:
  which HTTP client sent it, and the request with the cookies that client attached.
  The form is the \<open>url.Values\<close> of the body, in the order the keys were set.
\<close>

record http_Request =
  rq_method :: string
  rq_url :: string
  rq_headers :: "(string \<times> string) list"
  rq_cookies :: "cookie list"
  rq_form :: "(string \<times> string) list"

record wire =
  via :: http_Client
  request :: http_Request

record response =
  rs_StatusCode :: int
  rs_content_type :: string
  rs_cookies :: "cookie list"
  rs_body :: string

text \<open>The remote side answers a request knowing everything that was sent before.\<close>

type_synonym server = "wire list \<Rightarrow> wire \<Rightarrow> error + response"

text \<open>
  Everything outside the client that its calls change: the heap of cookie jars with
  the next free address, the requests sent so far, and the number of draws taken from
  the global random source.
\<close>

record world =
  jars :: "jar_addr \<Rightarrow> cookie list"
  next_jar :: jar_addr
  sent :: "wire list"
  rand_draws :: nat

text \<open>\<open>http.DefaultClient\<close> has no cookie jar.\<close>

definition DefaultClient :: http_Client where
  "DefaultClient = \<lparr>Jar = None\<rparr>"

text \<open>
  \<open>(*http.Client).Do\<close>, one round trip: a client with a jar adds the jar's cookies for
  the URL to the request and stores the cookies of the response in the jar; a client
  without a jar does neither.
\<close>

definition http_Client_Do ::
  "golib \<Rightarrow> server \<Rightarrow> http_Client \<Rightarrow> http_Request \<Rightarrow> world \<Rightarrow> (error + response) \<times> world" where
  "http_Client_Do lib srv cl req w =
     (let req1 = (case Jar cl of None \<Rightarrow> req
                  | Some a \<Rightarrow>
                      req\<lparr>rq_cookies := rq_cookies req @ jar_Cookies lib (jars w a) (rq_url req)\<rparr>);
          entry = \<lparr>via = cl, request = req1\<rparr>;
          w1 = w\<lparr>sent := sent w @ [entry]\<rparr>
      in case srv (sent w) entry of
           Inl err \<Rightarrow> (Inl err, w1)
         | Inr resp \<Rightarrow>
             (Inr resp,
              case Jar cl of None \<Rightarrow> w1
              | Some a \<Rightarrow>
                  if rs_cookies resp = [] then w1
                  else w1\<lparr>jars := (jars w1)
                         (a := jar_SetCookies lib (jars w1 a) (rq_url req) (rs_cookies resp))\<rparr>))"

definition http_Client_Get ::
  "golib \<Rightarrow> server \<Rightarrow> http_Client \<Rightarrow> string \<Rightarrow> world \<Rightarrow> (error + response) \<times> world" where
  "http_Client_Get lib srv cl url w =
     (case http_NewRequest_error lib ''GET'' url of
        Some err \<Rightarrow> (Inl err, w)
      | None \<Rightarrow>
          http_Client_Do lib srv cl
            \<lparr>rq_method = ''GET'', rq_url = url, rq_headers = [], rq_cookies = [], rq_form = []\<rparr> w)"

subsection \<open>Creating a client\<close>

text \<open>
  \<open>initParam\<close> creates an empty cookie jar and an HTTP client on that jar, and resolves
  the three endpoint paths against the base URL. The errors of \<open>url.Parse\<close> on the
  constant strings are discarded by the code; \<open>parsed\<close> gives the empty URL for them.
\<close>

definition parsed :: "golib \<Rightarrow> string \<Rightarrow> URL" where
  "parsed lib v =
     (case url_Parse lib v of
        Inr u \<Rightarrow> u
      | Inl err \<Rightarrow> \<lparr>Scheme = [], Host = [], Path = [], RawQuery = [], Fragment = []\<rparr>)"

definition initParam :: "golib \<Rightarrow> string \<Rightarrow> string \<Rightarrow> world \<Rightarrow> EFDClient \<times> world" where
  "initParam lib ua layout w =
     (let a = next_jar w;
          w1 = w\<lparr>jars := (jars w)(a := []), next_jar := Suc a\<rparr>;
          base = parsed lib ''https://efdsearch.senate.gov''
      in (\<lparr>jar = a, client = \<lparr>Jar = Some a\<rparr>, baseURL = base,
           homeURL = url_ResolveReference lib base (parsed lib ''/search/home/''),
           searchURL = url_ResolveReference lib base (parsed lib ''/search/''),
           searchDataURL = url_ResolveReference lib base (parsed lib ''/search/report/data/''),
           userAgent = ua, dateLayout = layout, authed = False\<rparr>, w1))"

definition CreateEFDClient :: "golib \<Rightarrow> string \<Rightarrow> string \<Rightarrow> world \<Rightarrow> EFDClient \<times> world" where
  "CreateEFDClient lib ua layout w =
     (let layout1 = (if layout = [] then ''01/02/2006'' else layout);
          ua1 = (if ua = [] then
                   ''Mozilla/5.0 (Windows NT 10.0; Win64; x64; rv:75.0) Gecko/20100101 Firefox/75.0''
                 else ua)
      in initParam lib ua1 layout1 w)"

subsection \<open>Number formatting\<close>

fun digits :: "nat \<Rightarrow> string" where
  "digits n =
     (if n < 10 then [char_of (48 + n)] else digits (n div 10) @ [char_of (48 + n mod 10)])"

definition strconv_Itoa :: "int \<Rightarrow> string" where
  "strconv_Itoa i = (if i < 0 then CHR ''-'' # digits (nat (- i)) else digits (nat i))"

text \<open>\<open>fmt.Sprintf("%0wd", i)\<close>: zero padding to width \<open>w\<close>, the sign counted in.\<close>

definition sprintf_0d :: "nat \<Rightarrow> int \<Rightarrow> string" where
  "sprintf_0d width i =
     (let sign = (if i < 0 then ''-'' else []); ds = digits (nat \<bar>i\<bar>)
      in sign @ replicate (width - length sign - length ds) (CHR ''0'') @ ds)"

fun strings_Join :: "string list \<Rightarrow> string \<Rightarrow> string" where
  "strings_Join [] delim = []"
| "strings_Join [e] delim = e"
| "strings_Join (e # es) delim = e @ delim @ strings_Join es delim"

definition intEnumArrayToString :: "int list \<Rightarrow> string \<Rightarrow> string" where
  "intEnumArrayToString ints delim = ''['' @ strings_Join (map strconv_Itoa ints) delim @ '']''"

text \<open>\<open>strings.Replace(s, old, new, 1)\<close> for a non-empty \<open>old\<close>: the first occurrence only.\<close>

fun strings_Replace1 :: "string \<Rightarrow> string \<Rightarrow> string \<Rightarrow> string" where
  "strings_Replace1 [] old new = []"
| "strings_Replace1 (c # cs) old new =
     (if take (length old) (c # cs) = old then new @ drop (length old) (c # cs)
      else c # strings_Replace1 cs old new)"

subsection \<open>Tokens and the disclaimer handshake\<close>

definition csrfCharset :: string where
  "csrfCharset = ''abcdefghijklmnopqrstuvwxyzABCDEFGHIJKLMNOPQRSTUVWXYZ0123456789''"

text \<open>\<open>rand.Intn(n)\<close> lies in \<open>[0, n)\<close>; draw number \<open>k\<close> of the global source is
  \<open>rand_Intn lib k n mod n\<close>.\<close>

definition genCSRFToken :: "golib \<Rightarrow> world \<Rightarrow> string \<times> world" where
  "genCSRFToken lib w =
     (map (\<lambda>i. csrfCharset ! (rand_Intn lib (rand_draws w + i) (length csrfCharset)
                               mod length csrfCharset)) [0..<64],
      w\<lparr>rand_draws := rand_draws w + 64\<rparr>)"

definition parseCSRFToken ::
  "golib \<Rightarrow> server \<Rightarrow> EFDClient \<Rightarrow> URL \<Rightarrow> world \<Rightarrow> (error + string) \<times> world" where
  "parseCSRFToken lib srv c url w =
     (case http_NewRequest_error lib ''GET'' (url_String lib url) of
        Some err \<Rightarrow> (Inl err, w)
      | None \<Rightarrow>
          (case http_Client_Do lib srv (client c)
                  \<lparr>rq_method = ''GET'', rq_url = url_String lib url,
                   rq_headers = [(''User-Agent'', userAgent c)], rq_cookies = [], rq_form = []\<rparr> w of
             (Inl err, w1) \<Rightarrow> (Inl err, w1)
           | (Inr resp, w1) \<Rightarrow>
               if rs_StatusCode resp \<noteq> 200 then (Inl Non200Status, w1)
               else (case goquery_document lib (rs_body resp) of
                       Inl err \<Rightarrow> (Inl err, w1)
                     | Inr doc \<Rightarrow>
                         (let csrftoken = (case doc_csrf_fields doc of [] \<Rightarrow> []
                                           | v # rest \<Rightarrow> attr_or_empty v)
                          in if csrftoken = [] then (Inl CsrfTokenNotFound, w1)
                             else (Inr csrftoken, w1)))))"

definition AcceptDisclaimer ::
  "golib \<Rightarrow> server \<Rightarrow> EFDClient \<Rightarrow> world \<Rightarrow> error option \<times> EFDClient \<times> world" where
  "AcceptDisclaimer lib srv c w =
     (case parseCSRFToken lib srv c (homeURL c) w of
        (Inl err, w1) \<Rightarrow> (Some err, c, w1)
      | (Inr csrftoken, w1) \<Rightarrow>
          (let data = [(''prohibition_agreement'', ''1''), (''csrfmiddlewaretoken'', csrftoken)]
           in case http_NewRequest_error lib ''POST'' (url_String lib (homeURL c)) of
                Some err \<Rightarrow> (Some err, c, w1)
              | None \<Rightarrow>
                  (case http_Client_Do lib srv (client c)
                          \<lparr>rq_method = ''POST'', rq_url = url_String lib (homeURL c),
                           rq_headers =
                             [(''Referer'', url_String lib (homeURL c)),
                              (''Content-Type'', ''application/x-www-form-urlencoded''),
                              (''Content-Length'',
                               strconv_Itoa (int (length (url_Values_Encode lib data)))),
                              (''User-Agent'', userAgent c)],
                           rq_cookies = [], rq_form = data\<rparr> w1 of
                     (Inl err, w2) \<Rightarrow> (Some err, c, w2)
                   | (Inr resp, w2) \<Rightarrow> (None, c\<lparr>authed := True\<rparr>, w2))))"

section \<open>Search pager\<close>

text \<open>Go's \<open>int\<close> is a 64-bit two's complement integer; \<open>go_int\<close> is the wrap-around of
  its arithmetic.\<close>

definition go_int :: "int \<Rightarrow> int" where
  "go_int x = (x + 2 ^ 63) mod 2 ^ 64 - 2 ^ 63"

text \<open>The seven filter parameters that \<open>SearchReportData\<close> hands unchanged to every call of
  \<open>searchReportDataPaged\<close>.\<close>

record search_args =
  firstName :: string
  lastName :: string
  filerTypes :: "int list"
  state :: string
  reportTypes :: "int list"
  startTime :: gotime
  endTime :: gotime

text \<open>
  The body of the row loop of \<open>searchReportDataPaged\<close>, for the row \<open>result\<close> and the
  slice element \<open>sResult\<close> it points to. The boolean is false where the code leaves the
  loop with \<open>break\<close>, and true where the body runs to its end.
\<close>

definition search_row :: "golib \<Rightarrow> EFDClient \<Rightarrow> string list \<Rightarrow> SearchResult \<Rightarrow> bool \<times> SearchResult" where
  "search_row lib c result sResult =
     (if length result \<noteq> 5 then (False, sResult)
      else
        (case time_Parse lib (dateLayout c) (result ! 4) of
           Inl err \<Rightarrow> (False, sResult\<lparr>sr_DateSubmitted := zero_time\<rparr>)
         | Inr d \<Rightarrow>
             (let s1 = sResult\<lparr>sr_DateSubmitted := d\<rparr>
              in case parseAnchor lib (result ! 3) of
                   Inl err \<Rightarrow> (False, s1)
                 | Inr anchor \<Rightarrow>
                     if HREF anchor = [] then (False, s1)
                     else
                       (case url_Parse lib (HREF anchor) of
                          Inl err \<Rightarrow> (False, s1)
                        | Inr docURL \<Rightarrow>
                            (let u = url_ResolveReference lib (baseURL c) docURL;
                                 fmt = URLToReportFormat u;
                                 fileURL =
                                   (if fmt = PaperFormat
                                    then u\<lparr>Path := strings_Replace1 (Path u) ''view'' ''print''\<rparr>
                                    else u)
                             in (True,
                                 s1\<lparr>sr_FileURL := Some fileURL,
                                    sr_ReportFormat := fmt,
                                    sr_ReportName := Text anchor,
                                    sr_ReportID := path_Base (Path fileURL),
                                    sr_FirstName := strings_ToLower lib (result ! 0),
                                    sr_LastName := strings_ToLower lib (result ! 1),
                                    sr_FullName := strings_ToLower lib (result ! 2),
                                    sr_Valid := True\<rparr>))))))"

text \<open>The row loop: \<open>for i, result := range results.Data\<close>, over the slice
  \<open>searchResults\<close> allocated with one zero element per row.\<close>

fun search_rows ::
  "golib \<Rightarrow> EFDClient \<Rightarrow> nat \<Rightarrow> string list list \<Rightarrow> SearchResult list \<Rightarrow> SearchResult list" where
  "search_rows lib c i [] searchResults = searchResults"
| "search_rows lib c i (result # rest) searchResults =
     (case search_row lib c result (searchResults ! i) of
        (True, sResult) \<Rightarrow> search_rows lib c (Suc i) rest (searchResults[i := sResult])
      | (False, sResult) \<Rightarrow> searchResults[i := sResult])"

definition search_page_results :: "golib \<Rightarrow> EFDClient \<Rightarrow> string list list \<Rightarrow> SearchResult list" where
  "search_page_results lib c rows =
     filter_in_place sr_Valid
       (search_rows lib c 0 rows (replicate (length rows) SearchResult_zero))"

definition search_form ::
  "golib \<Rightarrow> search_args \<Rightarrow> int \<Rightarrow> int \<Rightarrow> string \<Rightarrow> (string \<times> string) list" where
  "search_form lib q start len csrfToken =
     (let startTimeString =
            sprintf_0d 2 (time_Month lib (startTime q)) @ ''/'' @
            sprintf_0d 2 (time_Day lib (startTime q)) @ ''/'' @
            sprintf_0d 4 (time_Year lib (startTime q)) @ '' 00:00:00'';
          endTimeString =
            sprintf_0d 2 (time_Month lib (endTime q)) @ ''/'' @
            sprintf_0d 2 (time_Day lib (endTime q)) @ ''/'' @
            sprintf_0d 4 (time_Year lib (endTime q)) @ '' 23:59:59''
      in [(''first_name'', firstName q),
          (''last_name'', lastName q),
          (''filer_types'', intEnumArrayToString (filerTypes q) '',''),
          (''senator_state'', state q),
          (''report_types'', intEnumArrayToString (reportTypes q) '',''),
          (''submitted_start_date'', startTimeString),
          (''submitted_end_date'', endTimeString),
          (''start'', strconv_Itoa start),
          (''length'', strconv_Itoa len),
          (''csrftoken'', csrfToken)])"

definition search_request ::
  "golib \<Rightarrow> EFDClient \<Rightarrow> search_args \<Rightarrow> int \<Rightarrow> int \<Rightarrow> string \<Rightarrow> http_Request" where
  "search_request lib c q start len csrfToken =
     (let data = search_form lib q start len csrfToken
      in \<lparr>rq_method = ''POST'', rq_url = url_String lib (searchDataURL c),
          rq_headers =
            [(''Referer'', url_String lib (searchURL c)),
             (''Content-Type'', ''application/x-www-form-urlencoded''),
             (''Content-Length'', strconv_Itoa (int (length (url_Values_Encode lib data)))),
             (''User-Agent'', userAgent c),
             (''X-CSRFToken'', csrfToken)],
          rq_cookies = [(''csrftoken'', csrfToken)],
          rq_form = data\<rparr>)"

text \<open>\<open>searchReportDataPaged\<close> returns the valid results of the page and the remainder
  \<open>RecordsTotal - start - length\<close>.\<close>

definition searchReportDataPaged ::
  "golib \<Rightarrow> server \<Rightarrow> EFDClient \<Rightarrow> search_args \<Rightarrow> int \<Rightarrow> int \<Rightarrow> world \<Rightarrow>
   (error + SearchResult list \<times> int) \<times> world" where
  "searchReportDataPaged lib srv c q start len w =
     (let (csrfToken, w1) = genCSRFToken lib w
      in case http_NewRequest_error lib ''POST'' (url_String lib (searchDataURL c)) of
           Some err \<Rightarrow> (Inl err, w1)
         | None \<Rightarrow>
             (case http_Client_Do lib srv DefaultClient
                     (search_request lib c q start len csrfToken) w1 of
                (Inl err, w2) \<Rightarrow> (Inl err, w2)
              | (Inr resp, w2) \<Rightarrow>
                  if rs_content_type resp \<noteq> ''application/json''
                  then (Inl ContentTypeNotJSON, w2)
                  else
                    (case json_Decode lib (rs_body resp) of
                       Inl err \<Rightarrow> (Inl err, w2)
                     | Inr results \<Rightarrow>
                         if Result results \<noteq> ''ok'' then (Inl SearchErrorStatus, w2)
                         else
                           (let searchFiltered = search_page_results lib c (Data results);
                                remainder = go_int (go_int (RecordsTotal results - start) - len)
                            in (Inr (searchFiltered, remainder), w2)))))"

text \<open>
  The loop of \<open>SearchReportData\<close>: \<open>for remainder > 0\<close>, with \<open>start = 0\<close> and
  \<open>remainder = 1\<close> before the first round. Nothing in the code bounds the number of
  rounds, so the loop is a partial function: \<open>None\<close> is a run that never returns.
\<close>

partial_function (option) SearchReportData_loop ::
  "golib \<Rightarrow> server \<Rightarrow> EFDClient \<Rightarrow> search_args \<Rightarrow> int \<Rightarrow> int \<Rightarrow> SearchResult list \<Rightarrow> world \<Rightarrow>
   ((error + SearchResult list) \<times> world) option" where
  "SearchReportData_loop lib srv c q start remainder finalResults w =
     (if remainder > 0 then
        (case searchReportDataPaged lib srv c q start 100 w of
           (Inl err, w1) \<Rightarrow> Some (Inl err, w1)
         | (Inr (results, remainder1), w1) \<Rightarrow>
             SearchReportData_loop lib srv c q (go_int (start + 100)) remainder1
               (finalResults @ results) w1)
      else Some (Inr finalResults, w))"

declare SearchReportData_loop.simps [code]

definition SearchReportData ::
  "golib \<Rightarrow> server \<Rightarrow> EFDClient \<Rightarrow> search_args \<Rightarrow> world \<Rightarrow>
   ((error + SearchResult list) \<times> world) option" where
  "SearchReportData lib srv c q w = SearchReportData_loop lib srv c q 0 1 [] w"

section \<open>Document handlers\<close>

text \<open>
  Each handler returns its result, the client (whose \<open>authed\<close> flag the handshake may
  set) and the world. \<open>result.FileURL.String()\<close> on a nil \<open>FileURL\<close> panics.
\<close>

definition fetch_document ::
  "golib \<Rightarrow> server \<Rightarrow> EFDClient \<Rightarrow> string \<Rightarrow> world \<Rightarrow> (error + html_doc) \<times> world" where
  "fetch_document lib srv c url w =
     (case http_Client_Get lib srv (client c) url w of
        (Inl err, w1) \<Rightarrow> (Inl err, w1)
      | (Inr resp, w1) \<Rightarrow>
          (case goquery_document lib (rs_body resp) of
             Inl err \<Rightarrow> (Inl err, w1)
           | Inr doc \<Rightarrow> (Inr doc, w1)))"

definition HandlePTRSearchResult ::
  "golib \<Rightarrow> server \<Rightarrow> EFDClient \<Rightarrow> SearchResult \<Rightarrow> world \<Rightarrow>
   (error + Transaction list) \<times> EFDClient \<times> world" where
  "HandlePTRSearchResult lib srv c result w =
     (case (if \<not> authed c then AcceptDisclaimer lib srv c w else (None, c, w)) of
        (Some err, c1, w1) \<Rightarrow> (Inl err, c1, w1)
      | (None, c1, w1) \<Rightarrow>
          (case sr_FileURL result of
             None \<Rightarrow> (Inl NilPointerPanic, c1, w1)
           | Some fileURL \<Rightarrow>
               (case fetch_document lib srv c1 (url_String lib fileURL) w1 of
                  (Inl err, w2) \<Rightarrow> (Inl err, c1, w2)
                | (Inr doc, w2) \<Rightarrow>
                    (Inr (ptr_transactions lib c1 (doc_table_rows doc)), c1, w2))))"

definition HandleAnnualSearchResult ::
  "golib \<Rightarrow> server \<Rightarrow> EFDClient \<Rightarrow> SearchResult \<Rightarrow> world \<Rightarrow>
   (error + Transaction list) \<times> EFDClient \<times> world" where
  "HandleAnnualSearchResult lib srv c result w =
     (case (if \<not> authed c then AcceptDisclaimer lib srv c w else (None, c, w)) of
        (Some err, c1, w1) \<Rightarrow> (Inl err, c1, w1)
      | (None, c1, w1) \<Rightarrow>
          (case sr_FileURL result of
             None \<Rightarrow> (Inl NilPointerPanic, c1, w1)
           | Some fileURL \<Rightarrow>
               (case fetch_document lib srv c1 (url_String lib fileURL) w1 of
                  (Inl err, w2) \<Rightarrow> (Inl err, c1, w2)
                | (Inr doc, w2) \<Rightarrow>
                    (Inr (annual_transactions lib c1 (doc_headings doc)), c1, w2))))"

text \<open>\<open>HandlePaperSearchResult\<close> rewrites the path of the URL before the fetch (the URL
  object is the one \<open>result.FileURL\<close> points to).\<close>

definition HandlePaperSearchResult ::
  "golib \<Rightarrow> server \<Rightarrow> EFDClient \<Rightarrow> SearchResult \<Rightarrow> world \<Rightarrow>
   (error + PaperReport) \<times> EFDClient \<times> world" where
  "HandlePaperSearchResult lib srv c result w =
     (case (if \<not> authed c then AcceptDisclaimer lib srv c w else (None, c, w)) of
        (Some err, c1, w1) \<Rightarrow> (Inl err, c1, w1)
      | (None, c1, w1) \<Rightarrow>
          (case sr_FileURL result of
             None \<Rightarrow> (Inl NilPointerPanic, c1, w1)
           | Some u \<Rightarrow>
               (let fileURL = u\<lparr>Path := strings_Replace1 (Path u) ''view'' ''print''\<rparr>
                in case fetch_document lib srv c1 (url_String lib fileURL) w1 of
                     (Inl err, w2) \<Rightarrow> (Inl err, c1, w2)
                   | (Inr doc, w2) \<Rightarrow> (Inr (paper_pages lib (doc_filing_images doc)), c1, w2))))"

section \<open>Report serializer\<close>

text \<open>
  \<open>json.Marshal\<close> and \<open>json.Unmarshal\<close> are modelled on the JSON value, not on its
  text. A string comes back from the text as \<open>json_coerce_string\<close> of it (invalid UTF-8
  is replaced when it is written).
\<close>

datatype json =
    JNull
  | JString string
  | JNumber int
  | JArray "json list"
  | JObject "(string \<times> json) list"

record JSONURL =
  ju_URL :: "URL option"

record ReportJson =
  rj_FirstName :: string
  rj_LastName :: string
  rj_ReportName :: string
  rj_ReportURL :: JSONURL
  rj_DateSubmitted :: gotime
  rj_ReportFormat :: ReportFormat
  rj_ReportID :: string
  rj_Transactions :: "Transaction list option"
  rj_Pages :: "JSONURL list option"

text \<open>A nil slice is \<open>None\<close>; it is written as \<open>null\<close>.\<close>

definition ReportJson_zero :: ReportJson where
  "ReportJson_zero =
     \<lparr>rj_FirstName = [], rj_LastName = [], rj_ReportName = [],
      rj_ReportURL = \<lparr>ju_URL = None\<rparr>, rj_DateSubmitted = zero_time,
      rj_ReportFormat = AnnualFormat, rj_ReportID = [],
      rj_Transactions = None, rj_Pages = None\<rparr>"

fun collect :: "('e + 'a) list \<Rightarrow> 'e + 'a list" where
  "collect [] = Inr []"
| "collect (x # xs) =
     (case x of Inl e \<Rightarrow> Inl e
      | Inr v \<Rightarrow> (case collect xs of Inl e \<Rightarrow> Inl e | Inr vs \<Rightarrow> Inr (v # vs)))"

text \<open>\<open>JSONURL.MarshalJSON\<close>: the string form of the URL; \<open>j.URL.String()\<close> panics on a nil
  URL.\<close>

definition JSONURL_MarshalJSON :: "golib \<Rightarrow> JSONURL \<Rightarrow> error + json" where
  "JSONURL_MarshalJSON lib j =
     (case ju_URL j of
        None \<Rightarrow> Inl NilPointerPanic
      | Some u \<Rightarrow> Inr (JString (json_coerce_string lib (url_String lib u))))"

text \<open>
  \<open>JSONURL.UnmarshalJSON\<close> is declared on the value \<open>(j JSONURL)\<close>: \<open>j\<close> is the method's
  own copy of the receiver. The model returns the error and that copy as the body
  leaves it.
\<close>

definition JSONURL_UnmarshalJSON :: "golib \<Rightarrow> JSONURL \<Rightarrow> json \<Rightarrow> error option \<times> JSONURL" where
  "JSONURL_UnmarshalJSON lib j b =
     (case (case b of JString v \<Rightarrow> Inr v | JNull \<Rightarrow> Inr []
            | other \<Rightarrow> Inl (LibraryError ''json: cannot unmarshal into Go value of type string'')) of
        Inl err \<Rightarrow> (Some err, j)
      | Inr s \<Rightarrow>
          (case url_Parse lib s of
             Inl err \<Rightarrow> (Some err, j)
           | Inr url \<Rightarrow> (None, j\<lparr>ju_URL := Some url\<rparr>)))"

definition ReportFormat_int :: "ReportFormat \<Rightarrow> int" where
  "ReportFormat_int f =
     (case f of AnnualFormat \<Rightarrow> 0 | DueDateExtensionFormat \<Rightarrow> 1 | PTRFormat \<Rightarrow> 2
      | BlindTrustFormat \<Rightarrow> 3 | OtherDocumentFormat \<Rightarrow> 4 | PaperFormat \<Rightarrow> 5
      | UnknownFormat \<Rightarrow> 6)"

definition omitempty :: "golib \<Rightarrow> string \<Rightarrow> string \<Rightarrow> (string \<times> json) list" where
  "omitempty lib key v = (if v = [] then [] else [(key, JString (json_coerce_string lib v))])"

text \<open>The encoding of a \<open>Transaction\<close> by its field tags: \<open>Valid\<close> is tagged \<open>"-"\<close> and is
  not written.\<close>

definition Transaction_Marshal :: "golib \<Rightarrow> Transaction \<Rightarrow> error + json" where
  "Transaction_Marshal lib t =
     (case time_MarshalJSON lib (tx_Date t) of
        Inl err \<Rightarrow> Inl err
      | Inr d \<Rightarrow>
          Inr (JObject
                ((''date'', JString d) #
                 omitempty lib ''owner'' (tx_Owner t) @
                 omitempty lib ''ticker'' (tx_Ticker t) @
                 omitempty lib ''assetname'' (tx_AssetName t) @
                 omitempty lib ''assettype'' (tx_AssetType t) @
                 omitempty lib ''type'' (tx_Type t) @
                 omitempty lib ''amount'' (tx_Amount t) @
                 omitempty lib ''comment'' (tx_Comment t))))"

definition ReportJson_Marshal :: "golib \<Rightarrow> ReportJson \<Rightarrow> error + json" where
  "ReportJson_Marshal lib ptrj =
     (case JSONURL_MarshalJSON lib (rj_ReportURL ptrj) of
        Inl err \<Rightarrow> Inl err
      | Inr reporturl \<Rightarrow>
     (case time_MarshalJSON lib (rj_DateSubmitted ptrj) of
        Inl err \<Rightarrow> Inl err
      | Inr datesubmitted \<Rightarrow>
     (case (case rj_Transactions ptrj of None \<Rightarrow> Inr JNull
            | Some ts \<Rightarrow> (case collect (map (Transaction_Marshal lib) ts) of
                           Inl err \<Rightarrow> Inl err | Inr js \<Rightarrow> Inr (JArray js))) of
        Inl err \<Rightarrow> Inl err
      | Inr transactions \<Rightarrow>
     (case (case rj_Pages ptrj of None \<Rightarrow> Inr JNull
            | Some ps \<Rightarrow> (case collect (map (JSONURL_MarshalJSON lib) ps) of
                           Inl err \<Rightarrow> Inl err | Inr js \<Rightarrow> Inr (JArray js))) of
        Inl err \<Rightarrow> Inl err
      | Inr pages \<Rightarrow>
          Inr (JObject
                [(''firstname'', JString (json_coerce_string lib (rj_FirstName ptrj))),
                 (''lastname'', JString (json_coerce_string lib (rj_LastName ptrj))),
                 (''reportname'', JString (json_coerce_string lib (rj_ReportName ptrj))),
                 (''reporturl'', reporturl),
                 (''datesubmitted'', JString datesubmitted),
                 (''reportformat'', JNumber (ReportFormat_int (rj_ReportFormat ptrj))),
                 (''reportid'', JString (json_coerce_string lib (rj_ReportID ptrj))),
                 (''transactions'', transactions),
                 (''pages'', pages)])))))"

text \<open>\<open>ReportToJson\<close> copies the slice \<open>parsedReport.Transactions\<close> as it is (nil stays nil
  and is written as \<open>null\<close>); the pages are always a slice made for the purpose.\<close>

definition ReportToJson :: "golib \<Rightarrow> SearchResult \<Rightarrow> ParsedReport \<Rightarrow> error + json" where
  "ReportToJson lib result parsedReport =
     (let ptrj = ReportJson_zero
            \<lparr>rj_FirstName := sr_FirstName result,
             rj_LastName := sr_LastName result,
             rj_ReportName := sr_ReportName result,
             rj_ReportFormat := sr_ReportFormat result,
             rj_ReportURL := \<lparr>ju_URL = sr_FileURL result\<rparr>,
             rj_DateSubmitted := sr_DateSubmitted result,
             rj_ReportID := sr_ReportID result\<rparr>;
          ptrj1 =
            (if rj_ReportFormat ptrj = AnnualFormat \<or> rj_ReportFormat ptrj = PTRFormat
             then ptrj\<lparr>rj_Transactions := pr_Transactions parsedReport\<rparr>
             else if rj_ReportFormat ptrj = PaperFormat
             then ptrj\<lparr>rj_Pages :=
                        Some (map (\<lambda>page. \<lparr>ju_URL = page\<rparr>) (PageURLs (pr_Pages parsedReport)))\<rparr>
             else ptrj)
      in ReportJson_Marshal lib ptrj1)"

subsection \<open>Decoding\<close>

text \<open>
  \<open>json.Unmarshal\<close> into a \<open>ReportJson\<close>, field by field: an absent key and \<open>null\<close> leave
  the field as it is. For a \<open>JSONURL\<close> field the decoder calls \<open>UnmarshalJSON\<close> on the
  field; as the method has a value receiver it works on a copy, and the field keeps
  its value whatever the method assigns.
\<close>

definition decode_string :: "string \<Rightarrow> json option \<Rightarrow> error + string" where
  "decode_string old v =
     (case v of None \<Rightarrow> Inr old | Some JNull \<Rightarrow> Inr old | Some (JString x) \<Rightarrow> Inr x
      | Some other \<Rightarrow> Inl (LibraryError ''json: cannot unmarshal into Go value of type string''))"

definition decode_time :: "golib \<Rightarrow> gotime \<Rightarrow> json option \<Rightarrow> error + gotime" where
  "decode_time lib old v =
     (case v of None \<Rightarrow> Inr old | Some JNull \<Rightarrow> Inr old
      | Some (JString x) \<Rightarrow> time_UnmarshalJSON lib x
      | Some other \<Rightarrow> Inl (LibraryError ''Time.UnmarshalJSON: input is not a JSON string''))"

definition decode_JSONURL :: "golib \<Rightarrow> JSONURL \<Rightarrow> json option \<Rightarrow> error + JSONURL" where
  "decode_JSONURL lib field v =
     (case v of None \<Rightarrow> Inr field
      | Some b \<Rightarrow> (case JSONURL_UnmarshalJSON lib field b of
                     (Some err, j) \<Rightarrow> Inl err
                   | (None, j) \<Rightarrow> Inr field))"

text \<open>The enumeration has the values 0 to 6; another number has no \<open>ReportFormat\<close> in
  this model and is reported as an error.\<close>

definition decode_ReportFormat :: "ReportFormat \<Rightarrow> json option \<Rightarrow> error + ReportFormat" where
  "decode_ReportFormat old v =
     (case v of None \<Rightarrow> Inr old | Some JNull \<Rightarrow> Inr old
      | Some (JNumber n) \<Rightarrow>
          (if n = 0 then Inr AnnualFormat else if n = 1 then Inr DueDateExtensionFormat
           else if n = 2 then Inr PTRFormat else if n = 3 then Inr BlindTrustFormat
           else if n = 4 then Inr OtherDocumentFormat else if n = 5 then Inr PaperFormat
           else if n = 6 then Inr UnknownFormat
           else Inl (LibraryError ''not a ReportFormat''))
      | Some other \<Rightarrow> Inl (LibraryError ''json: cannot unmarshal into Go value of type int''))"

definition Transaction_Unmarshal :: "golib \<Rightarrow> json \<Rightarrow> error + Transaction" where
  "Transaction_Unmarshal lib v =
     (case v of
        JObject kvs \<Rightarrow>
          (case decode_time lib zero_time (map_of kvs ''date'') of Inl err \<Rightarrow> Inl err | Inr d \<Rightarrow>
          (case decode_string [] (map_of kvs ''owner'') of Inl err \<Rightarrow> Inl err | Inr ow \<Rightarrow>
          (case decode_string [] (map_of kvs ''ticker'') of Inl err \<Rightarrow> Inl err | Inr ti \<Rightarrow>
          (case decode_string [] (map_of kvs ''assetname'') of Inl err \<Rightarrow> Inl err | Inr an \<Rightarrow>
          (case decode_string [] (map_of kvs ''assettype'') of Inl err \<Rightarrow> Inl err | Inr at \<Rightarrow>
          (case decode_string [] (map_of kvs ''type'') of Inl err \<Rightarrow> Inl err | Inr ty \<Rightarrow>
          (case decode_string [] (map_of kvs ''amount'') of Inl err \<Rightarrow> Inl err | Inr am \<Rightarrow>
          (case decode_string [] (map_of kvs ''comment'') of Inl err \<Rightarrow> Inl err | Inr co \<Rightarrow>
             Inr \<lparr>tx_Date = d, tx_Owner = ow, tx_Ticker = ti, tx_AssetName = an,
                  tx_AssetType = at, tx_Type = ty, tx_Amount = am, tx_Comment = co,
                  tx_Valid = False\<rparr>))))))))
      | JNull \<Rightarrow> Inr Transaction_zero
      | other \<Rightarrow> Inl (LibraryError ''json: cannot unmarshal into Go value of type Transaction''))"

definition decode_Transactions ::
  "golib \<Rightarrow> Transaction list option \<Rightarrow> json option \<Rightarrow> error + Transaction list option" where
  "decode_Transactions lib old v =
     (case v of None \<Rightarrow> Inr old | Some JNull \<Rightarrow> Inr None
      | Some (JArray js) \<Rightarrow>
          (case collect (map (Transaction_Unmarshal lib) js) of
             Inl err \<Rightarrow> Inl err | Inr ts \<Rightarrow> Inr (Some ts))
      | Some other \<Rightarrow> Inl (LibraryError ''json: cannot unmarshal into Go value of type []Transaction''))"

definition decode_Pages ::
  "golib \<Rightarrow> JSONURL list option \<Rightarrow> json option \<Rightarrow> error + JSONURL list option" where
  "decode_Pages lib old v =
     (case v of None \<Rightarrow> Inr old | Some JNull \<Rightarrow> Inr None
      | Some (JArray js) \<Rightarrow>
          (case collect (map (\<lambda>b. decode_JSONURL lib \<lparr>ju_URL = None\<rparr> (Some b)) js) of
             Inl err \<Rightarrow> Inl err | Inr ps \<Rightarrow> Inr (Some ps))
      | Some other \<Rightarrow> Inl (LibraryError ''json: cannot unmarshal into Go value of type []JSONURL''))"

definition ReportJson_Unmarshal :: "golib \<Rightarrow> json \<Rightarrow> error + ReportJson" where
  "ReportJson_Unmarshal lib v =
     (case v of
        JObject kvs \<Rightarrow>
          (case decode_string [] (map_of kvs ''firstname'') of Inl err \<Rightarrow> Inl err | Inr fn \<Rightarrow>
          (case decode_string [] (map_of kvs ''lastname'') of Inl err \<Rightarrow> Inl err | Inr ln \<Rightarrow>
          (case decode_string [] (map_of kvs ''reportname'') of Inl err \<Rightarrow> Inl err | Inr rn \<Rightarrow>
          (case decode_JSONURL lib \<lparr>ju_URL = None\<rparr> (map_of kvs ''reporturl'') of
             Inl err \<Rightarrow> Inl err | Inr ru \<Rightarrow>
          (case decode_time lib zero_time (map_of kvs ''datesubmitted'') of
             Inl err \<Rightarrow> Inl err | Inr ds \<Rightarrow>
          (case decode_ReportFormat AnnualFormat (map_of kvs ''reportformat'') of
             Inl err \<Rightarrow> Inl err | Inr rf \<Rightarrow>
          (case decode_string [] (map_of kvs ''reportid'') of Inl err \<Rightarrow> Inl err | Inr ri \<Rightarrow>
          (case decode_Transactions lib None (map_of kvs ''transactions'') of
             Inl err \<Rightarrow> Inl err | Inr ts \<Rightarrow>
          (case decode_Pages lib None (map_of kvs ''pages'') of
             Inl err \<Rightarrow> Inl err | Inr ps \<Rightarrow>
             Inr \<lparr>rj_FirstName = fn, rj_LastName = ln, rj_ReportName = rn, rj_ReportURL = ru,
                  rj_DateSubmitted = ds, rj_ReportFormat = rf, rj_ReportID = ri,
                  rj_Transactions = ts, rj_Pages = ps\<rparr>)))))))))
      | JNull \<Rightarrow> Inr ReportJson_zero
      | other \<Rightarrow> Inl (LibraryError ''json: cannot unmarshal into Go value of type ReportJson''))"

section \<open>Rows by their columns\<close>

text \<open>
  The column tables of the specification, written as total parses of a row: a row
  gives a record when every mapped column parses, and nothing otherwise. The
  theorems below compare the handlers with them.
\<close>

definition text_field :: "golib \<Rightarrow> cell \<Rightarrow> string option" where
  "text_field lib t = (case removeHTMLSelection lib t of Inl err \<Rightarrow> None | Inr v \<Rightarrow> Some v)"

definition date_field :: "golib \<Rightarrow> EFDClient \<Rightarrow> cell \<Rightarrow> gotime option" where
  "date_field lib c t =
     (case removeHTMLSelection lib t of
        Inl err \<Rightarrow> None
      | Inr v \<Rightarrow> (case time_Parse lib (dateLayout c) v of Inl err \<Rightarrow> None | Inr d \<Rightarrow> Some d))"

definition ticker_field :: "golib \<Rightarrow> cell \<Rightarrow> string option" where
  "ticker_field lib t =
     (case stripHTMLSelection lib t of
        Inl err \<Rightarrow> None
      | Inr v \<Rightarrow>
          if v = ''--'' then Some ''--''
          else (case parseAnchor lib v of
                  Inl err \<Rightarrow> None
                | Inr anchor \<Rightarrow> if Text anchor = [] then None else Some (Text anchor)))"

text \<open>PTR: 0 ignored, 1 date, 2 owner, 3 ticker, 4 asset name, 5 asset type,
  6 transaction type, 7 amount, 8 comment.\<close>

definition ptr_row_columns :: "golib \<Rightarrow> EFDClient \<Rightarrow> cell list \<Rightarrow> Transaction option" where
  "ptr_row_columns lib c tds =
     (if length tds \<noteq> 9 then None
      else
        (case date_field lib c (tds ! 1) of None \<Rightarrow> None | Some d \<Rightarrow>
        (case text_field lib (tds ! 2) of None \<Rightarrow> None | Some ow \<Rightarrow>
        (case ticker_field lib (tds ! 3) of None \<Rightarrow> None | Some ti \<Rightarrow>
        (case text_field lib (tds ! 4) of None \<Rightarrow> None | Some an \<Rightarrow>
        (case text_field lib (tds ! 5) of None \<Rightarrow> None | Some at \<Rightarrow>
        (case text_field lib (tds ! 6) of None \<Rightarrow> None | Some ty \<Rightarrow>
        (case text_field lib (tds ! 7) of None \<Rightarrow> None | Some am \<Rightarrow>
        (case text_field lib (tds ! 8) of None \<Rightarrow> None | Some co \<Rightarrow>
           Some \<lparr>tx_Date = d, tx_Owner = ow, tx_Ticker = ti, tx_AssetName = an,
                 tx_AssetType = at, tx_Type = ty, tx_Amount = am, tx_Comment = co,
                 tx_Valid = True\<rparr>)))))))))"

text \<open>Annual, part 4a: 0 and 1 ignored, 2 date, 3 owner, 4 ticker, 5 asset name,
  6 transaction type, 7 amount, 8 comment; no asset type.\<close>

definition annual4a_row_columns :: "golib \<Rightarrow> EFDClient \<Rightarrow> cell list \<Rightarrow> Transaction option" where
  "annual4a_row_columns lib c tds =
     (if length tds \<noteq> 9 then None
      else
        (case date_field lib c (tds ! 2) of None \<Rightarrow> None | Some d \<Rightarrow>
        (case text_field lib (tds ! 3) of None \<Rightarrow> None | Some ow \<Rightarrow>
        (case ticker_field lib (tds ! 4) of None \<Rightarrow> None | Some ti \<Rightarrow>
        (case text_field lib (tds ! 5) of None \<Rightarrow> None | Some an \<Rightarrow>
        (case text_field lib (tds ! 6) of None \<Rightarrow> None | Some ty \<Rightarrow>
        (case text_field lib (tds ! 7) of None \<Rightarrow> None | Some am \<Rightarrow>
        (case text_field lib (tds ! 8) of None \<Rightarrow> None | Some co \<Rightarrow>
           Some \<lparr>tx_Date = d, tx_Owner = ow, tx_Ticker = ti, tx_AssetName = an,
                 tx_AssetType = [], tx_Type = ty, tx_Amount = am, tx_Comment = co,
                 tx_Valid = True\<rparr>))))))))"

text \<open>Annual, part 4b: 0 and 1 ignored, 2 owner, 3 ticker, 4 asset name,
  5 transaction type, 6 date, 7 amount, 8 comment; no asset type.\<close>

definition annual4b_row_columns :: "golib \<Rightarrow> EFDClient \<Rightarrow> cell list \<Rightarrow> Transaction option" where
  "annual4b_row_columns lib c tds =
     (if length tds \<noteq> 9 then None
      else
        (case text_field lib (tds ! 2) of None \<Rightarrow> None | Some ow \<Rightarrow>
        (case ticker_field lib (tds ! 3) of None \<Rightarrow> None | Some ti \<Rightarrow>
        (case text_field lib (tds ! 4) of None \<Rightarrow> None | Some an \<Rightarrow>
        (case text_field lib (tds ! 5) of None \<Rightarrow> None | Some ty \<Rightarrow>
        (case date_field lib c (tds ! 6) of None \<Rightarrow> None | Some d \<Rightarrow>
        (case text_field lib (tds ! 7) of None \<Rightarrow> None | Some am \<Rightarrow>
        (case text_field lib (tds ! 8) of None \<Rightarrow> None | Some co \<Rightarrow>
           Some \<lparr>tx_Date = d, tx_Owner = ow, tx_Ticker = ti, tx_AssetName = an,
                 tx_AssetType = [], tx_Type = ty, tx_Amount = am, tx_Comment = co,
                 tx_Valid = True\<rparr>))))))))"

text \<open>A search-data row \<open>[firstName, lastName, fullName, anchor, submitted]\<close>.\<close>

definition search_row_columns :: "golib \<Rightarrow> EFDClient \<Rightarrow> string list \<Rightarrow> SearchResult option" where
  "search_row_columns lib c row =
     (if length row \<noteq> 5 then None
      else
        (case time_Parse lib (dateLayout c) (row ! 4) of Inl err \<Rightarrow> None | Inr d \<Rightarrow>
        (case parseAnchor lib (row ! 3) of Inl err \<Rightarrow> None | Inr anchor \<Rightarrow>
           if HREF anchor = [] then None
           else
             (case url_Parse lib (HREF anchor) of Inl err \<Rightarrow> None | Inr docURL \<Rightarrow>
                (let u = url_ResolveReference lib (baseURL c) docURL;
                     fmt = URLToReportFormat u;
                     fileURL =
                       (if fmt = PaperFormat
                        then u\<lparr>Path := strings_Replace1 (Path u) ''view'' ''print''\<rparr>
                        else u)
                 in Some \<lparr>sr_FirstName = strings_ToLower lib (row ! 0),
                          sr_LastName = strings_ToLower lib (row ! 1),
                          sr_FullName = strings_ToLower lib (row ! 2),
                          sr_FileURL = Some fileURL,
                          sr_ReportName = Text anchor,
                          sr_ReportFormat = fmt,
                          sr_ReportID = path_Base (Path fileURL),
                          sr_DateSubmitted = d,
                          sr_Valid = True\<rparr>)))))"

text \<open>The cleaned title of a heading, and the two section labels.\<close>

definition heading_title :: "golib \<Rightarrow> annual_hdr \<Rightarrow> string" where
  "heading_title lib s =
     (case removeHTMLSelection lib (hdr_html s) of Inl err \<Rightarrow> [] | Inr v \<Rightarrow> v)"

definition part4a :: string where
  "part4a = ''Part 4a. Periodic Transaction Report Summary''"

definition part4b :: string where
  "part4b = ''Part 4b. Transactions''"

text \<open>The table rows of the section with a given label: the heading loop overwrites its
  slice at every heading with that label, so the last such heading counts.\<close>

definition last_section ::
  "golib \<Rightarrow> string \<Rightarrow> annual_hdr list \<Rightarrow> cell list list option" where
  "last_section lib label hdrs =
     (case filter (\<lambda>s. heading_title lib s = label) hdrs of
        [] \<Rightarrow> None
      | s # rest \<Rightarrow> Some (hdr_section_rows (last (s # rest))))"

text \<open>
  The requests of the session as they appear among the requests sent: the two requests
  of the disclaimer handshake, and the fetch of a document, each through the client's
  own HTTP client; the fetch carries the cookies that the client's jar holds for the URL.
\<close>

definition home_GET :: "golib \<Rightarrow> EFDClient \<Rightarrow> wire \<Rightarrow> bool" where
  "home_GET lib c e =
     (via e = client c \<and> rq_method (request e) = ''GET'' \<and>
      rq_url (request e) = url_String lib (homeURL c))"

definition home_POST :: "golib \<Rightarrow> EFDClient \<Rightarrow> wire \<Rightarrow> bool" where
  "home_POST lib c e =
     (via e = client c \<and> rq_method (request e) = ''POST'' \<and>
      rq_url (request e) = url_String lib (homeURL c) \<and>
      map_of (rq_form (request e)) ''prohibition_agreement'' = Some ''1'')"

definition document_GET :: "golib \<Rightarrow> EFDClient \<Rightarrow> string \<Rightarrow> world \<Rightarrow> wire" where
  "document_GET lib c url w =
     \<lparr>via = client c,
      request =
        \<lparr>rq_method = ''GET'', rq_url = url, rq_headers = [],
         rq_cookies = (case Jar (client c) of None \<Rightarrow> []
                       | Some a \<Rightarrow> jar_Cookies lib (jars w a) url),
         rq_form = []\<rparr>\<rparr>"

text \<open>
  A fetch through the session: the request \<open>document_GET\<close> is the one sent, the server's
  answer to it is taken, and the cookies of the answer are stored in the client's jar.
\<close>

definition session_fetch ::
  "golib \<Rightarrow> server \<Rightarrow> EFDClient \<Rightarrow> string \<Rightarrow> world \<Rightarrow> world \<Rightarrow> bool" where
  "session_fetch lib srv c url w w' =
     (\<exists>resp. srv (sent w) (document_GET lib c url w) = Inr resp \<and>
        sent w' = sent w @ [document_GET lib c url w] \<and>
        jars w' =
          (case Jar (client c) of
             None \<Rightarrow> jars w
           | Some a \<Rightarrow>
               if rs_cookies resp = [] then jars w
               else (jars w)(a := jar_SetCookies lib (jars w a) url (rs_cookies resp))))"

text \<open>
  Lazy authentication of a handler that started in world \<open>w\<close> with client \<open>c\<close> and ended
  in \<open>w'\<close> with \<open>c'\<close>: the flag is set at the end; with the flag set at the start the
  fetch is the only request; with the flag unset the two handshake requests come first,
  once, and the fetch follows.
\<close>

definition fetched_after_auth ::
  "golib \<Rightarrow> server \<Rightarrow> EFDClient \<Rightarrow> string \<Rightarrow> world \<Rightarrow> EFDClient \<Rightarrow> world \<Rightarrow> bool" where
  "fetched_after_auth lib srv c url w c' w' =
     (authed c' \<and>
      (\<exists>w1. session_fetch lib srv c url w1 w' \<and>
         (if authed c then w1 = w
          else (\<exists>g p. sent w1 = sent w @ [g, p] \<and> home_GET lib c g \<and> home_POST lib c p))))"

section \<open>A small library instance and test data\<close>

text \<open>
  The theorems hold for every library behaviour. To run the definitions on concrete
  inputs, \<open>ex_lib\<close> fixes one: dates are the numbers \<open>yyyymmdd\<close>, a URL string is cut into
  scheme, host and path, and the HTML and JSON parsers are tables of the few texts
  used below.
\<close>

definition ex_url :: "string \<Rightarrow> URL" where
  "ex_url p =
     \<lparr>Scheme = ''https'', Host = ''efdsearch.senate.gov'', Path = p, RawQuery = [], Fragment = []\<rparr>"

definition ex_url_Parse :: "string \<Rightarrow> error + URL" where
  "ex_url_Parse v =
     (if v = ''%'' then Inl (LibraryError ''invalid URL escape'')
      else if take 8 v = ''https://''
      then Inr \<lparr>Scheme = ''https'', Host = takeWhile (\<lambda>ch. ch \<noteq> slash) (drop 8 v),
                Path = dropWhile (\<lambda>ch. ch \<noteq> slash) (drop 8 v), RawQuery = [], Fragment = []\<rparr>
      else Inr \<lparr>Scheme = [], Host = [], Path = v, RawQuery = [], Fragment = []\<rparr>)"

definition ex_url_String :: "URL \<Rightarrow> string" where
  "ex_url_String u = (if Scheme u = [] then Path u else Scheme u @ ''://'' @ Host u @ Path u)"

definition ex_anchors :: "(string \<times> first_a) list" where
  "ex_anchors =
     [(''<a href=/search/view/ptr/abc-123/>PTR</a>'',
       first_a (Some ''/search/view/ptr/abc-123/'') None ''PTR''),
      (''<a href=/quote/AAPL>AAPL</a>'', first_a (Some ''/quote/AAPL'') None ''AAPL'')]"

definition jane_row :: "string list" where
  "jane_row =
     [''jane'', ''doe'', ''jane doe'', ''<a href=/search/view/ptr/abc-123/>PTR</a>'', ''01/02/2020'']"

definition short_row :: "string list" where
  "short_row = [''john'', ''roe'', ''john roe'', ''<a href=/search/view/ptr/abc-123/>PTR</a>'']"

definition ex_pages :: "(string \<times> SearchResults) list" where
  "ex_pages =
     [(''page'',
       \<lparr>Draw = 1, RecordsTotal = 150, RecordsFiltered = 150, Data = [jane_row], Result = ''ok''\<rparr>),
      (''empty'',
       \<lparr>Draw = 1, RecordsTotal = 0, RecordsFiltered = 0, Data = [], Result = ''ok''\<rparr>),
      (''single'',
       \<lparr>Draw = 1, RecordsTotal = 1, RecordsFiltered = 1, Data = [jane_row], Result = ''ok''\<rparr>)]"

definition ptr_cells :: "cell list" where
  "ptr_cells =
     [Inr ''1'', Inr ''01/02/2020'', Inr ''Self'', Inr ''<a href=/quote/AAPL>AAPL</a>'',
      Inr ''Apple Inc.'', Inr ''Stock'', Inr ''Purchase'', Inr ''$1,001 - $15,000'',
      Inr ''<i>none</i>'']"

definition annual_cells_4a :: "cell list" where
  "annual_cells_4a =
     [Inr [], Inr ''1'', Inr ''01/02/2020'', Inr ''Self'', Inr ''--'',
      Inr ''Fund A'', Inr ''Sale'', Inr ''$1,001 - $15,000'', Inr ''--'']"

definition annual_cells_4b :: "cell list" where
  "annual_cells_4b =
     [Inr [], Inr ''1'', Inr ''Spouse'', Inr ''--'', Inr ''Fund B'', Inr ''Purchase'',
      Inr ''01/02/2020'', Inr ''$15,001 - $50,000'', Inr ''--'']"

definition ex_documents :: "(string \<times> html_doc) list" where
  "ex_documents =
     [(''home'',
       \<lparr>doc_csrf_fields = [Some ''servertoken''], doc_table_rows = [], doc_headings = [],
        doc_filing_images = []\<rparr>),
      (''ptr'',
       \<lparr>doc_csrf_fields = [], doc_table_rows = [ptr_cells], doc_headings = [],
        doc_filing_images = []\<rparr>),
      (''annual'',
       \<lparr>doc_csrf_fields = [], doc_table_rows = [],
        doc_headings =
          [\<lparr>hdr_html = Inr ''Part 4b. Transactions'', hdr_section_rows = [annual_cells_4b]\<rparr>,
           \<lparr>hdr_html = Inr ''Part 4a. Periodic Transaction Report Summary'',
            hdr_section_rows = [annual_cells_4a]\<rparr>],
        doc_filing_images = []\<rparr>),
      (''paper'',
       \<lparr>doc_csrf_fields = [], doc_table_rows = [], doc_headings = [],
        doc_filing_images = [None, Some ''/media/page1.png'']\<rparr>)]"

definition ex_lib :: golib where
  "ex_lib =
     \<lparr>time_Parse = (\<lambda>layout v. if v = ''01/02/2020'' then Inr (Instant 20200102)
                                 else Inl (LibraryError ''parsing time'')),
      time_Month = (\<lambda>t. case t of Instant n \<Rightarrow> (n div 100) mod 100),
      time_Day = (\<lambda>t. case t of Instant n \<Rightarrow> n mod 100),
      time_Year = (\<lambda>t. case t of Instant n \<Rightarrow> n div 10000),
      url_Parse = ex_url_Parse,
      url_String = ex_url_String,
      url_ResolveReference = (\<lambda>base r. if Scheme r = [] then base\<lparr>Path := Path r\<rparr> else r),
      url_Values_Encode = (\<lambda>kvs. strings_Join (map (\<lambda>kv. fst kv @ ''='' @ snd kv) kvs) ''&''),
      strings_ToLower = (\<lambda>v. v),
      strings_TrimSpace = (\<lambda>v. rev (dropWhile is_space (rev (dropWhile is_space v)))),
      goquery_first_a = (\<lambda>tag. case map_of ex_anchors tag of Some a \<Rightarrow> Inr a
                                  | None \<Rightarrow> Inr (first_a None None [])),
      goquery_document = (\<lambda>body. case map_of ex_documents body of Some d \<Rightarrow> Inr d
                                   | None \<Rightarrow> Inl (LibraryError ''html'')),
      json_Decode = (\<lambda>body. case map_of ex_pages body of Some r \<Rightarrow> Inr r
                              | None \<Rightarrow> Inl (LibraryError ''json'')),
      json_coerce_string = (\<lambda>v. v),
      time_MarshalJSON = (\<lambda>t. if t = Instant 20200102 then Inr ''2020-01-02T00:00:00Z''
                                else Inl (LibraryError ''year outside of range'')),
      time_UnmarshalJSON = (\<lambda>v. if v = ''2020-01-02T00:00:00Z'' then Inr (Instant 20200102)
                                  else Inl (LibraryError ''parsing time'')),
      http_NewRequest_error = (\<lambda>m u. None),
      rand_Intn = (\<lambda>k n. k mod n),
      jar_Cookies = (\<lambda>cookies u. cookies),
      jar_SetCookies = (\<lambda>cookies u new. cookies @ new)\<rparr>"

definition ex_world :: world where
  "ex_world = \<lparr>jars = (\<lambda>a. []), next_jar = 0, sent = [], rand_draws = 0\<rparr>"

definition ex_client :: EFDClient where
  "ex_client =
     \<lparr>jar = 0, client = \<lparr>Jar = Some 0\<rparr>, baseURL = ex_url [],
      homeURL = ex_url ''/search/home/'', searchURL = ex_url ''/search/'',
      searchDataURL = ex_url ''/search/report/data/'',
      userAgent = ''test'', dateLayout = ''01/02/2006'', authed = False\<rparr>"

definition ex_args :: search_args where
  "ex_args =
     \<lparr>firstName = [], lastName = [], filerTypes = [1], state = [], reportTypes = [11, 7],
      startTime = Instant 20200101, endTime = Instant 20200430\<rparr>"

text \<open>A server that answers by URL, and one that answers every request with the given
  JSON page.\<close>

definition ex_server :: server where
  "ex_server history e =
     (let u = rq_url (request e)
      in if u = ''https://efdsearch.senate.gov/search/home/''
         then Inr \<lparr>rs_StatusCode = 200, rs_content_type = ''text/html'',
                   rs_cookies = [(''sessionid'', ''s1'')], rs_body = ''home''\<rparr>
         else if u = ''https://efdsearch.senate.gov/search/report/data/''
         then Inr \<lparr>rs_StatusCode = 200, rs_content_type = ''application/json'',
                   rs_cookies = [(''tracking'', ''t1'')], rs_body = ''empty''\<rparr>
         else if u = ''https://efdsearch.senate.gov/search/view/ptr/abc-123/''
         then Inr \<lparr>rs_StatusCode = 200, rs_content_type = ''text/html'',
                   rs_cookies = [], rs_body = ''ptr''\<rparr>
         else if u = ''https://efdsearch.senate.gov/search/view/annual/abc-456/''
         then Inr \<lparr>rs_StatusCode = 200, rs_content_type = ''text/html'',
                   rs_cookies = [], rs_body = ''annual''\<rparr>
         else if u = ''https://efdsearch.senate.gov/search/print/paper/abc-789/''
         then Inr \<lparr>rs_StatusCode = 200, rs_content_type = ''text/html'',
                   rs_cookies = [], rs_body = ''paper''\<rparr>
         else Inl (LibraryError ''no route to host''))"

definition page_server :: "string \<Rightarrow> server" where
  "page_server body history e =
     Inr \<lparr>rs_StatusCode = 200, rs_content_type = ''application/json'', rs_cookies = [],
          rs_body = body\<rparr>"

definition ex_result :: "ReportFormat \<Rightarrow> string \<Rightarrow> SearchResult" where
  "ex_result fmt p =
     \<lparr>sr_FirstName = ''jane'', sr_LastName = ''doe'', sr_FullName = ''jane doe'',
      sr_FileURL = Some (ex_url p), sr_ReportName = ''Report'', sr_ReportFormat = fmt,
      sr_ReportID = path_Base p, sr_DateSubmitted = Instant 20200102, sr_Valid = True\<rparr>"

definition aapl :: Transaction where
  "aapl =
     \<lparr>tx_Date = Instant 20200102, tx_Owner = ''Self'', tx_Ticker = ''AAPL'',
      tx_AssetName = ''Apple Inc.'', tx_AssetType = ''Stock'', tx_Type = ''Purchase'',
      tx_Amount = ''$1,001 - $15,000'', tx_Comment = ''none'', tx_Valid = True\<rparr>"


definition fund_a :: Transaction where
  "fund_a =
     \<lparr>tx_Date = Instant 20200102, tx_Owner = ''Self'', tx_Ticker = ''--'',
      tx_AssetName = ''Fund A'', tx_AssetType = [], tx_Type = ''Sale'',
      tx_Amount = ''$1,001 - $15,000'', tx_Comment = ''--'', tx_Valid = True\<rparr>"

definition fund_b :: Transaction where
  "fund_b =
     \<lparr>tx_Date = Instant 20200102, tx_Owner = ''Spouse'', tx_Ticker = ''--'',
      tx_AssetName = ''Fund B'', tx_AssetType = [], tx_Type = ''Purchase'',
      tx_Amount = ''$15,001 - $50,000'', tx_Comment = ''--'', tx_Valid = True\<rparr>"

definition jane_result :: SearchResult where
  "jane_result =
     \<lparr>sr_FirstName = ''jane'', sr_LastName = ''doe'', sr_FullName = ''jane doe'',
      sr_FileURL = Some (ex_url ''/search/view/ptr/abc-123/''), sr_ReportName = ''PTR'',
      sr_ReportFormat = PTRFormat, sr_ReportID = ''abc-123'',
      sr_DateSubmitted = Instant 20200102, sr_Valid = True\<rparr>"

definition page1 :: URL where
  "page1 = \<lparr>Scheme = [], Host = [], Path = ''/media/page1.png'', RawQuery = [], Fragment = []\<rparr>"

definition ex_search_run :: "(error + SearchResult list) \<times> world" where
  "ex_search_run =
     the (SearchReportData ex_lib (page_server ''single'') ex_client ex_args ex_world)"

definition ex_ptr_run :: "(error + Transaction list) \<times> EFDClient \<times> world" where
  "ex_ptr_run =
     HandlePTRSearchResult ex_lib ex_server ex_client
       (ex_result PTRFormat ''/search/view/ptr/abc-123/'') ex_world"

definition ex_annual_run :: "(error + Transaction list) \<times> EFDClient \<times> world" where
  "ex_annual_run =
     HandleAnnualSearchResult ex_lib ex_server ex_client
       (ex_result AnnualFormat ''/search/view/annual/abc-456/'') ex_world"

definition ex_page :: SearchResults where
  "ex_page =
     \<lparr>Draw = 1, RecordsTotal = 150, RecordsFiltered = 150, Data = [jane_row], Result = ''ok''\<rparr>"

definition ex_search_page :: "(error + SearchResult list \<times> int) \<times> world" where
  "ex_search_page = searchReportDataPaged ex_lib ex_server ex_client ex_args 0 100 ex_world"

definition ex_failed_handshake :: "error option \<times> EFDClient \<times> world" where
  "ex_failed_handshake = AcceptDisclaimer ex_lib (page_server ''single'') ex_client ex_world"

definition ex_authed_run :: "(error + Transaction list) \<times> EFDClient \<times> world" where
  "ex_authed_run =
     HandlePTRSearchResult ex_lib ex_server (ex_client\<lparr>authed := True\<rparr>)
       (ex_result PTRFormat ''/search/view/ptr/abc-123/'') ex_world"

section \<open>The in-place filter and the row loops\<close>

text \<open>
  After \<open>n\<close> rounds of the filter loop the first \<open>k\<close> elements of the array are the kept
  ones among the first \<open>n\<close> of the input, and the part not yet read is unchanged: a
  write at \<open>k \<le> n\<close> never reaches an element that is still to be read.
\<close>

lemma filter_fold_invariant:
  "n \<le> length xs \<Longrightarrow>
   (let st = fold (filter_step keep) [0..<n] (xs, 0)
    in length (fst st) = length xs \<and> snd st \<le> n \<and>
       take (snd st) (fst st) = filter keep (take n xs) \<and>
       drop n (fst st) = drop n xs)"
proof (induction n)
  case 0
  then show ?case by simp
next
  case (Suc n)
  define st where "st = fold (filter_step keep) [0..<n] (xs, 0)"
  from Suc have n: "n < length xs" by simp
  from Suc.IH n have len: "length (fst st) = length xs" and k: "snd st \<le> n"
    and tk: "take (snd st) (fst st) = filter keep (take n xs)"
    and dr: "drop n (fst st) = drop n xs"
    by (simp_all add: st_def Let_def)
  have rd: "fst st ! n = xs ! n"
    using dr n len by (metis Cons_nth_drop_Suc nth_via_drop)
  have step: "fold (filter_step keep) [0..<Suc n] (xs, 0) = filter_step keep n st"
    by (simp add: st_def)
  have tn: "take (Suc n) xs = take n xs @ [xs ! n]"
    using n by (simp add: take_Suc_conv_app_nth)
  have dS: "drop (Suc n) (fst st) = drop (Suc n) xs"
    using dr by (metis drop_drop plus_1_eq_Suc)
  show ?case
  proof (cases "keep (xs ! n)")
    case True
    have kl: "snd st < length (fst st)" using k n len by simp
    have "take (Suc (snd st)) ((fst st)[snd st := xs ! n]) = take (snd st) (fst st) @ [xs ! n]"
      using kl by (simp add: take_Suc_conv_app_nth)
    moreover have "drop (Suc n) ((fst st)[snd st := xs ! n]) = drop (Suc n) (fst st)"
      using k by simp
    ultimately show ?thesis
      using True k tk dS len rd unfolding step by (simp add: filter_step_def Let_def tn)
  next
    case False
    then show ?thesis
      using k tk dS len rd unfolding step by (simp add: filter_step_def Let_def tn)
  qed
qed

lemma filter_in_place_filter: "filter_in_place keep xs = filter keep xs"
  using filter_fold_invariant [of "length xs" xs keep]
  by (simp add: filter_in_place_def Let_def)

lemma Each_slots:
  "length pre = i \<Longrightarrow>
   (\<And>j x s. j < length s \<Longrightarrow> length (f j x s) = length s) \<Longrightarrow>
   (\<And>j x s k. k \<noteq> j \<Longrightarrow> f j x s ! k = s ! k) \<Longrightarrow>
   (\<And>j x s. j < length s \<Longrightarrow> s ! j = z \<Longrightarrow> f j x s ! j = g x) \<Longrightarrow>
   Each f i xs (pre @ replicate (length xs) z) = pre @ map g xs"
proof (induction xs arbitrary: i pre)
  case Nil
  then show ?case by simp
next
  case (Cons x xs)
  let ?s = "pre @ replicate (length (x # xs)) z"
  have l: "i < length ?s" using Cons.prems(1) by simp
  have "f i x ?s = (pre @ [g x]) @ replicate (length xs) z"
  proof (rule nth_equalityI)
    show "length (f i x ?s) = length ((pre @ [g x]) @ replicate (length xs) z)"
      using Cons.prems(2) [OF l] by simp
  next
    fix k assume "k < length (f i x ?s)"
    then have kl: "k < length ?s" using Cons.prems(2) [OF l] by simp
    show "f i x ?s ! k = ((pre @ [g x]) @ replicate (length xs) z) ! k"
    proof (cases "k = i")
      case True
      have "?s ! i = z" using Cons.prems(1) by (simp add: nth_append)
      then show ?thesis using Cons.prems(4) [OF l] True Cons.prems(1) by (simp add: nth_append)
    next
      case False
      then show ?thesis using Cons.prems(3) [of k i x ?s] Cons.prems(1) kl
        by (auto simp: nth_append nth_Cons split: nat.splits)
    qed
  qed
  moreover have "Each f (Suc i) xs ((pre @ [g x]) @ replicate (length xs) z) = (pre @ [g x]) @ map g xs"
    by (rule Cons.IH) (use Cons.prems in auto)
  ultimately show ?case by simp
qed

lemma table_rows_map:
  "table_rows cellf trs =
   map (\<lambda>tds. if length tds \<noteq> 9 then Transaction_zero
               else EachWithBreak cellf 0 tds Transaction_zero) trs"
  unfolding table_rows_def
  using Each_slots [of "[]" 0 "table_row cellf" Transaction_zero _ trs]
  by (simp add: table_row_def)

section \<open>Cells and rows of a transaction table\<close>

lemma handle_text_cells:
  "handleTransactionCell lib c tr t ownerCell =
     (case text_field lib t of None \<Rightarrow> (False, tr) | Some v \<Rightarrow> (True, tr\<lparr>tx_Owner := v\<rparr>))"
  "handleTransactionCell lib c tr t assetNameCell =
     (case text_field lib t of None \<Rightarrow> (False, tr) | Some v \<Rightarrow> (True, tr\<lparr>tx_AssetName := v\<rparr>))"
  "handleTransactionCell lib c tr t assetTypeCell =
     (case text_field lib t of None \<Rightarrow> (False, tr) | Some v \<Rightarrow> (True, tr\<lparr>tx_AssetType := v\<rparr>))"
  "handleTransactionCell lib c tr t trTypeCell =
     (case text_field lib t of None \<Rightarrow> (False, tr) | Some v \<Rightarrow> (True, tr\<lparr>tx_Type := v\<rparr>))"
  "handleTransactionCell lib c tr t amountCell =
     (case text_field lib t of None \<Rightarrow> (False, tr) | Some v \<Rightarrow> (True, tr\<lparr>tx_Amount := v\<rparr>))"
  by (simp_all add: text_field_def split: sum.splits)

lemma handle_ticker_cell:
  "handleTransactionCell lib c tr t tickerCell =
     (case ticker_field lib t of None \<Rightarrow> (False, tr) | Some v \<Rightarrow> (True, tr\<lparr>tx_Ticker := v\<rparr>))"
  by (simp add: ticker_field_def split: sum.splits)

lemma handle_date_cell:
  "handleTransactionCell lib c tr t trDateCell =
     (case date_field lib c t of
        None \<Rightarrow> (False, case removeHTMLSelection lib t of Inl err \<Rightarrow> tr
                          | Inr v \<Rightarrow> tr\<lparr>tx_Date := zero_time\<rparr>)
      | Some d \<Rightarrow> (True, tr\<lparr>tx_Date := d\<rparr>))"
  by (simp add: date_field_def split: sum.splits)

lemma handle_date_cell_valid:
  "tx_Valid (case x of Inl err \<Rightarrow> tr | Inr v \<Rightarrow> tr\<lparr>tx_Date := z\<rparr>) = tx_Valid tr"
  by (simp split: sum.splits)

lemma comment_and_valid_eq:
  "comment_and_valid lib c t tr =
     (case text_field lib t of None \<Rightarrow> (False, tr)
      | Some v \<Rightarrow> (True, tr\<lparr>tx_Comment := v, tx_Valid := True\<rparr>))"
  by (simp add: comment_and_valid_def text_field_def split: sum.splits)

lemma nine_cells:
  "length tds = 9 \<Longrightarrow> \<exists>t0 t1 t2 t3 t4 t5 t6 t7 t8. tds = [t0, t1, t2, t3, t4, t5, t6, t7, t8]"
  by (auto simp: length_Suc_conv eval_nat_numeral)

lemmas cell_eqs = handle_text_cells handle_ticker_cell comment_and_valid_eq handle_date_cell
  handle_date_cell_valid

lemma ptr_row_some:
  assumes "ptr_row_columns lib c tds = Some t"
  shows "EachWithBreak (ptr_cell lib c) 0 tds Transaction_zero = t"
proof -
  from assms have "length tds = 9" by (simp add: ptr_row_columns_def split: if_splits)
  from nine_cells [OF this] obtain t0 t1 t2 t3 t4 t5 t6 t7 t8
    where tds: "tds = [t0, t1, t2, t3, t4, t5, t6, t7, t8]" by blast
  show ?thesis
    using assms unfolding tds
    by (auto simp add: ptr_row_columns_def ptr_cell_def cell_eqs Transaction_zero_def
        simp del: handleTransactionCell.simps split: option.split_asm)
qed

lemma ptr_row_none:
  assumes "ptr_row_columns lib c tds = None" and "length tds = 9"
  shows "\<not> tx_Valid (EachWithBreak (ptr_cell lib c) 0 tds Transaction_zero)"
proof -
  from nine_cells [OF assms(2)] obtain t0 t1 t2 t3 t4 t5 t6 t7 t8
    where tds: "tds = [t0, t1, t2, t3, t4, t5, t6, t7, t8]" by blast
  show ?thesis
    using assms(1) unfolding tds
    by (auto simp add: ptr_row_columns_def ptr_cell_def cell_eqs Transaction_zero_def
        simp del: handleTransactionCell.simps split: option.split_asm)
qed


lemma rows_by_columns:
  assumes some: "\<And>tds t. cols tds = Some t \<Longrightarrow>
                   EachWithBreak cellf 0 tds Transaction_zero = t \<and> tx_Valid t \<and> length tds = 9"
    and none: "\<And>tds. cols tds = None \<Longrightarrow> length tds = 9 \<Longrightarrow>
                 \<not> tx_Valid (EachWithBreak cellf 0 tds Transaction_zero)"
  shows "filter_in_place tx_Valid (table_rows cellf trs) = List.map_filter cols trs"
proof -
  have "filter tx_Valid (map (\<lambda>tds. if length tds \<noteq> 9 then Transaction_zero
            else EachWithBreak cellf 0 tds Transaction_zero) trs) = List.map_filter cols trs"
  proof (induction trs)
    case Nil
    then show ?case by (simp add: List.map_filter_simps)
  next
    case (Cons tds trs)
    show ?case
    proof (cases "cols tds")
      case None
      then show ?thesis using Cons none [OF None]
        by (auto simp: List.map_filter_simps Transaction_zero_def)
    next
      case (Some t)
      then show ?thesis using Cons some [OF Some]
        by (auto simp: List.map_filter_simps)
    qed
  qed
  then show ?thesis by (simp add: filter_in_place_filter table_rows_map)
qed

lemma ptr_row_some_valid: "ptr_row_columns lib c tds = Some t \<Longrightarrow> tx_Valid t \<and> length tds = 9"
  by (auto simp: ptr_row_columns_def split: if_splits option.split_asm)

lemma ptr_transactions_columns:
  "ptr_transactions lib c trs = List.map_filter (ptr_row_columns lib c) trs"
  unfolding ptr_transactions_def
  by (rule rows_by_columns) (auto simp: ptr_row_some ptr_row_some_valid ptr_row_none)



section \<open>The classifier\<close>

text \<open>
  Claim C3. The claim gives \<open>DueDateExtensionFormat\<close> to every path whose segment before
  the last is \<open>regular\<close> under \<open>extension-notice\<close>, with or without the trailing slash.
  Without the trailing slash \<open>URLToReportFormat\<close> returns \<open>UnknownFormat\<close>: \<open>dir\<close> then ends
  in a slash, \<open>path.Dir(dir)\<close> only removes that slash, and its base is \<open>regular\<close> again.
  With the trailing slash the format is found, and \<open>ptr\<close> is found in both shapes.
\<close>

theorem URLToReportFormat_regular_without_trailing_slash:
  "URLToReportFormat (ex_url ''/search/view/extension-notice/regular/abc-123'') = UnknownFormat \<and>
   URLToReportFormat (ex_url ''/search/view/extension-notice/regular/abc-123/'') =
     DueDateExtensionFormat \<and>
   URLToReportFormat (ex_url ''/search/view/ptr/abc-123'') = PTRFormat \<and>
   URLToReportFormat (ex_url ''/search/view/ptr/abc-123/'') = PTRFormat"
  by code_simp

section \<open>Annual documents\<close>

lemma annual4a_row_some:
  assumes "annual4a_row_columns lib c tds = Some t"
  shows "EachWithBreak (annual4a_cell lib c) 0 tds Transaction_zero = t \<and> tx_Valid t \<and>
         length tds = 9 \<and> tx_AssetType t = []"
proof -
  from assms have "length tds = 9" by (simp add: annual4a_row_columns_def split: if_splits)
  from nine_cells [OF this] obtain t0 t1 t2 t3 t4 t5 t6 t7 t8
    where tds: "tds = [t0, t1, t2, t3, t4, t5, t6, t7, t8]" by blast
  show ?thesis
    using assms unfolding tds
    by (auto simp add: annual4a_row_columns_def annual4a_cell_def cell_eqs Transaction_zero_def
        simp del: handleTransactionCell.simps split: option.split_asm)
qed

lemma annual4a_row_none:
  assumes "annual4a_row_columns lib c tds = None" and "length tds = 9"
  shows "\<not> tx_Valid (EachWithBreak (annual4a_cell lib c) 0 tds Transaction_zero)"
proof -
  from nine_cells [OF assms(2)] obtain t0 t1 t2 t3 t4 t5 t6 t7 t8
    where tds: "tds = [t0, t1, t2, t3, t4, t5, t6, t7, t8]" by blast
  show ?thesis
    using assms(1) unfolding tds
    by (auto simp add: annual4a_row_columns_def annual4a_cell_def cell_eqs Transaction_zero_def
        simp del: handleTransactionCell.simps split: option.split_asm)
qed

lemma annual4b_row_some:
  assumes "annual4b_row_columns lib c tds = Some t"
  shows "EachWithBreak (annual4b_cell lib c) 0 tds Transaction_zero = t \<and> tx_Valid t \<and>
         length tds = 9 \<and> tx_AssetType t = []"
proof -
  from assms have "length tds = 9" by (simp add: annual4b_row_columns_def split: if_splits)
  from nine_cells [OF this] obtain t0 t1 t2 t3 t4 t5 t6 t7 t8
    where tds: "tds = [t0, t1, t2, t3, t4, t5, t6, t7, t8]" by blast
  show ?thesis
    using assms unfolding tds
    by (auto simp add: annual4b_row_columns_def annual4b_cell_def cell_eqs Transaction_zero_def
        simp del: handleTransactionCell.simps split: option.split_asm)
qed

lemma annual4b_row_none:
  assumes "annual4b_row_columns lib c tds = None" and "length tds = 9"
  shows "\<not> tx_Valid (EachWithBreak (annual4b_cell lib c) 0 tds Transaction_zero)"
proof -
  from nine_cells [OF assms(2)] obtain t0 t1 t2 t3 t4 t5 t6 t7 t8
    where tds: "tds = [t0, t1, t2, t3, t4, t5, t6, t7, t8]" by blast
  show ?thesis
    using assms(1) unfolding tds
    by (auto simp add: annual4b_row_columns_def annual4b_cell_def cell_eqs Transaction_zero_def
        simp del: handleTransactionCell.simps split: option.split_asm)
qed

lemma annual4a_rows:
  "filter tx_Valid (table_rows (annual4a_cell lib c) trs) =
   List.map_filter (annual4a_row_columns lib c) trs"
  using rows_by_columns [of "annual4a_row_columns lib c" "annual4a_cell lib c" trs]
  by (simp add: filter_in_place_filter annual4a_row_some annual4a_row_none)

lemma annual4b_rows:
  "filter tx_Valid (table_rows (annual4b_cell lib c) trs) =
   List.map_filter (annual4b_row_columns lib c) trs"
  using rows_by_columns [of "annual4b_row_columns lib c" "annual4b_cell lib c" trs]
  by (simp add: filter_in_place_filter annual4b_row_some annual4b_row_none)

lemma part4a_neq_part4b: "part4a \<noteq> part4b"
  by (simp add: part4a_def part4b_def)

lemma annual_heading_cases:
  "annual_heading lib c i s st =
     (if heading_title lib s = part4a
      then (table_rows (annual4a_cell lib c) (hdr_section_rows s), snd st)
      else if heading_title lib s = part4b
      then (fst st, table_rows (annual4b_cell lib c) (hdr_section_rows s))
      else st)"
  by (simp add: annual_heading_def heading_title_def part4a_def part4b_def Let_def)

lemma annual_headings_fold:
  "Each (annual_heading lib c) i hdrs st =
     (case last_section lib part4a hdrs of
        None \<Rightarrow> fst st | Some trs \<Rightarrow> table_rows (annual4a_cell lib c) trs,
      case last_section lib part4b hdrs of
        None \<Rightarrow> snd st | Some trs \<Rightarrow> table_rows (annual4b_cell lib c) trs)"
proof (induction hdrs arbitrary: i st)
  case Nil
  then show ?case by (simp add: last_section_def)
next
  case (Cons s hdrs)
  define st1 where "st1 = annual_heading lib c i s st"
  have "Each (annual_heading lib c) i (s # hdrs) st = Each (annual_heading lib c) (Suc i) hdrs st1"
    by (simp add: st1_def)
  also have "\<dots> =
     (case last_section lib part4a hdrs of
        None \<Rightarrow> fst st1 | Some trs \<Rightarrow> table_rows (annual4a_cell lib c) trs,
      case last_section lib part4b hdrs of
        None \<Rightarrow> snd st1 | Some trs \<Rightarrow> table_rows (annual4b_cell lib c) trs)"
    by (rule Cons.IH)
  also have "\<dots> =
     (case last_section lib part4a (s # hdrs) of
        None \<Rightarrow> fst st | Some trs \<Rightarrow> table_rows (annual4a_cell lib c) trs,
      case last_section lib part4b (s # hdrs) of
        None \<Rightarrow> snd st | Some trs \<Rightarrow> table_rows (annual4b_cell lib c) trs)"
    using part4a_neq_part4b
    by (simp add: st1_def annual_heading_cases last_section_def split: list.splits)
  finally show ?case .
qed



section \<open>Search-data rows\<close>

lemma search_row_some:
  "search_row_columns lib c row = Some r \<Longrightarrow>
   search_row lib c row SearchResult_zero = (True, r) \<and> sr_Valid r \<and> length row = 5"
  by (auto simp: search_row_columns_def search_row_def SearchResult_zero_def Let_def
      split: if_splits sum.split_asm)

lemma search_row_none:
  "search_row_columns lib c row = None \<Longrightarrow>
   fst (search_row lib c row SearchResult_zero) = False \<and>
   \<not> sr_Valid (snd (search_row lib c row SearchResult_zero))"
  by (auto simp: search_row_columns_def search_row_def SearchResult_zero_def Let_def
      split: if_splits sum.split_asm)

lemma search_rows_prefix:
  "length pre = i \<Longrightarrow>
   \<exists>junk. search_rows lib c i rows (pre @ replicate (length rows) SearchResult_zero) =
            pre @ map (\<lambda>row. the (search_row_columns lib c row))
                    (takeWhile (\<lambda>row. search_row_columns lib c row \<noteq> None) rows) @ junk \<and>
          (\<forall>s \<in> set junk. \<not> sr_Valid s)"
proof (induction rows arbitrary: i pre)
  case Nil
  then show ?case by simp
next
  case (Cons row rows)
  have nth: "(pre @ replicate (length (row # rows)) SearchResult_zero) ! i = SearchResult_zero"
    using Cons.prems by (simp add: nth_append)
  have upd: "\<And>v. (pre @ replicate (length (row # rows)) SearchResult_zero)[i := v] =
             (pre @ [v]) @ replicate (length rows) SearchResult_zero"
    using Cons.prems by (simp add: list_update_append)
  show ?case
  proof (cases "search_row_columns lib c row")
    case None
    obtain s where s: "search_row lib c row SearchResult_zero = (False, s)" "\<not> sr_Valid s"
      using search_row_none [OF None] by (cases "search_row lib c row SearchResult_zero") auto
    have "search_rows lib c i (row # rows) (pre @ replicate (length (row # rows)) SearchResult_zero) =
          pre @ [] @ (s # replicate (length rows) SearchResult_zero)"
      using s(1) nth upd by simp
    moreover have "\<forall>x \<in> set (s # replicate (length rows) SearchResult_zero). \<not> sr_Valid x"
      using s(2) by (auto simp: SearchResult_zero_def)
    ultimately show ?thesis using None by (intro exI [of _ "s # replicate (length rows) SearchResult_zero"]) simp
  next
    case (Some r)
    from search_row_some [OF Some] have r: "search_row lib c row SearchResult_zero = (True, r)" by simp
    from Cons.IH [of "pre @ [r]" "Suc i"] Cons.prems obtain junk where
      j: "search_rows lib c (Suc i) rows ((pre @ [r]) @ replicate (length rows) SearchResult_zero) =
            (pre @ [r]) @ map (\<lambda>row. the (search_row_columns lib c row))
                    (takeWhile (\<lambda>row. search_row_columns lib c row \<noteq> None) rows) @ junk"
      and v: "\<forall>s \<in> set junk. \<not> sr_Valid s"
      by auto
    have "search_rows lib c i (row # rows) (pre @ replicate (length (row # rows)) SearchResult_zero) =
          search_rows lib c (Suc i) rows ((pre @ [r]) @ replicate (length rows) SearchResult_zero)"
      using r nth upd by simp
    with j v Some show ?thesis by (intro exI [of _ junk]) simp
  qed
qed

text \<open>The results of a page are the rows before the first row that does not parse.\<close>

lemma search_page_prefix:
  "search_page_results lib c rows =
   map (\<lambda>row. the (search_row_columns lib c row))
     (takeWhile (\<lambda>row. search_row_columns lib c row \<noteq> None) rows)"
proof -
  from search_rows_prefix [of "[]" 0 lib c rows] obtain junk where
    j: "search_rows lib c 0 rows (replicate (length rows) SearchResult_zero) =
          map (\<lambda>row. the (search_row_columns lib c row))
            (takeWhile (\<lambda>row. search_row_columns lib c row \<noteq> None) rows) @ junk"
    and v: "\<forall>s \<in> set junk. \<not> sr_Valid s"
    by auto
  have "filter sr_Valid (map (\<lambda>row. the (search_row_columns lib c row))
            (takeWhile (\<lambda>row. search_row_columns lib c row \<noteq> None) rows)) =
        map (\<lambda>row. the (search_row_columns lib c row))
            (takeWhile (\<lambda>row. search_row_columns lib c row \<noteq> None) rows)"
    by (rule filter_True) (auto dest!: set_takeWhileD dest: search_row_some)
  moreover have "filter sr_Valid junk = []" using v by (simp add: filter_empty_conv)
  ultimately show ?thesis
    by (simp add: search_page_results_def filter_in_place_filter j)
qed

text \<open>
  Claim C2. The claim lets every fully parsing row of a page appear in the result. The
  row loop leaves with \<open>break\<close> at the first row that has not five elements (or whose date
  or anchor does not parse), so the rows after it are never read: a page made of a
  four-element row followed by a well-formed row gives no result at all, while the
  well-formed row alone gives its result.
\<close>

theorem search_page_stops_at_malformed_row:
  "search_row_columns ex_lib ex_client jane_row = Some jane_result \<and>
   search_page_results ex_lib ex_client [jane_row] = [jane_result] \<and>
   search_page_results ex_lib ex_client [short_row, jane_row] = []"
  by code_simp

section \<open>Paper documents\<close>

text \<open>Every image has its slot in the collection, filled or nil.\<close>

lemma paper_pages_slots:
  "PageURLs (paper_pages lib pages) =
   map (\<lambda>s. case s of None \<Rightarrow> None
             | Some v \<Rightarrow> (case url_Parse lib v of Inl err \<Rightarrow> None | Inr u \<Rightarrow> Some u)) pages"
  unfolding paper_pages_def
  using Each_slots [of "[]" 0 "paper_page lib" None _ pages]
  by (simp add: paper_page_def split: option.splits sum.splits)

section \<open>What the handlers return\<close>

lemma AcceptDisclaimer_client:
  "AcceptDisclaimer lib srv c w = (r, c', w') \<Longrightarrow>
   c' = (if r = None then c\<lparr>authed := True\<rparr> else c)"
  by (auto simp: AcceptDisclaimer_def Let_def split: prod.splits sum.splits option.splits)

lemma ensure_authed_client:
  "(if \<not> authed c then AcceptDisclaimer lib srv c w else (None, c, w)) = (r, c', w') \<Longrightarrow>
   dateLayout c' = dateLayout c \<and> client c' = client c \<and> (r = None \<longrightarrow> authed c')"
  by (auto dest!: AcceptDisclaimer_client split: if_splits)

lemma HandlePTRSearchResult_success:
  assumes "HandlePTRSearchResult lib srv c result w = (Inr txs, c', w')"
  obtains u doc w1 where
    "(if \<not> authed c then AcceptDisclaimer lib srv c w else (None, c, w)) = (None, c', w1)"
    "sr_FileURL result = Some u"
    "fetch_document lib srv c' (url_String lib u) w1 = (Inr doc, w')"
    "txs = ptr_transactions lib c' (doc_table_rows doc)"
proof -
  obtain r c1 w1 where
    e: "(if \<not> authed c then AcceptDisclaimer lib srv c w else (None, c, w)) = (r, c1, w1)"
    by (metis prod_cases3)
  have r: "r = None"
    using assms unfolding HandlePTRSearchResult_def e by (cases r) simp_all
  obtain u where u: "sr_FileURL result = Some u"
    using assms unfolding HandlePTRSearchResult_def e r by (cases "sr_FileURL result") simp_all
  obtain res w2 where f: "fetch_document lib srv c1 (url_String lib u) w1 = (res, w2)"
    by (metis surj_pair)
  obtain doc where res: "res = Inr doc"
    using assms unfolding HandlePTRSearchResult_def e r u by (cases res) (simp_all add: f)
  have "c' = c1" "w' = w2" "txs = ptr_transactions lib c1 (doc_table_rows doc)"
    using assms unfolding HandlePTRSearchResult_def e r u by (auto simp: f res)
  with e r u f res that show ?thesis by simp
qed

lemma HandleAnnualSearchResult_success:
  assumes "HandleAnnualSearchResult lib srv c result w = (Inr txs, c', w')"
  obtains u doc w1 where
    "(if \<not> authed c then AcceptDisclaimer lib srv c w else (None, c, w)) = (None, c', w1)"
    "sr_FileURL result = Some u"
    "fetch_document lib srv c' (url_String lib u) w1 = (Inr doc, w')"
    "txs = annual_transactions lib c' (doc_headings doc)"
proof -
  obtain r c1 w1 where
    e: "(if \<not> authed c then AcceptDisclaimer lib srv c w else (None, c, w)) = (r, c1, w1)"
    by (metis prod_cases3)
  have r: "r = None"
    using assms unfolding HandleAnnualSearchResult_def e by (cases r) simp_all
  obtain u where u: "sr_FileURL result = Some u"
    using assms unfolding HandleAnnualSearchResult_def e r by (cases "sr_FileURL result") simp_all
  obtain res w2 where f: "fetch_document lib srv c1 (url_String lib u) w1 = (res, w2)"
    by (metis surj_pair)
  obtain doc where res: "res = Inr doc"
    using assms unfolding HandleAnnualSearchResult_def e r u by (cases res) (simp_all add: f)
  have "c' = c1" "w' = w2" "txs = annual_transactions lib c1 (doc_headings doc)"
    using assms unfolding HandleAnnualSearchResult_def e r u by (auto simp: f res)
  with e r u f res that show ?thesis by simp
qed

lemma HandlePaperSearchResult_success:
  assumes "HandlePaperSearchResult lib srv c result w = (Inr report, c', w')"
  obtains u doc w1 where
    "(if \<not> authed c then AcceptDisclaimer lib srv c w else (None, c, w)) = (None, c', w1)"
    "sr_FileURL result = Some u"
    "fetch_document lib srv c' (url_String lib (u\<lparr>Path := strings_Replace1 (Path u) ''view'' ''print''\<rparr>)) w1 = (Inr doc, w')"
    "report = paper_pages lib (doc_filing_images doc)"
proof -
  obtain r c1 w1 where
    e: "(if \<not> authed c then AcceptDisclaimer lib srv c w else (None, c, w)) = (r, c1, w1)"
    by (metis prod_cases3)
  have r: "r = None"
    using assms unfolding HandlePaperSearchResult_def e by (cases r) simp_all
  obtain u where u: "sr_FileURL result = Some u"
    using assms unfolding HandlePaperSearchResult_def e r by (cases "sr_FileURL result") simp_all
  obtain res w2 where f: "fetch_document lib srv c1 (url_String lib (u\<lparr>Path := strings_Replace1 (Path u) ''view'' ''print''\<rparr>)) w1 = (res, w2)"
    by (metis surj_pair)
  obtain doc where res: "res = Inr doc"
    using assms unfolding HandlePaperSearchResult_def e r u by (cases res) (simp_all add: f Let_def)
  have "c' = c1" "w' = w2" "report = paper_pages lib (doc_filing_images doc)"
    using assms unfolding HandlePaperSearchResult_def e r u by (auto simp: f res Let_def)
  with e r u f res that show ?thesis by simp
qed

lemma date_field_dateLayout:
  "dateLayout c' = dateLayout c \<Longrightarrow> date_field lib c' = date_field lib c"
  by (simp add: fun_eq_iff date_field_def cong: sum.case_cong)

lemma row_columns_dateLayout:
  assumes "dateLayout c' = dateLayout c"
  shows "ptr_row_columns lib c' = ptr_row_columns lib c"
    and "annual4a_row_columns lib c' = annual4a_row_columns lib c"
    and "annual4b_row_columns lib c' = annual4b_row_columns lib c"
proof -
  note d = date_field_dateLayout [OF assms]
  show "ptr_row_columns lib c' = ptr_row_columns lib c"
    by (rule ext) (unfold ptr_row_columns_def d, rule refl)
  show "annual4a_row_columns lib c' = annual4a_row_columns lib c"
    by (rule ext) (unfold annual4a_row_columns_def d, rule refl)
  show "annual4b_row_columns lib c' = annual4b_row_columns lib c"
    by (rule ext) (unfold annual4b_row_columns_def d, rule refl)
qed

lemma map_filter_member:
  "t \<in> set (List.map_filter f xs) \<Longrightarrow> \<exists>x \<in> set xs. f x = Some t"
  by (auto simp: List.map_filter_def)

lemma annual_transactions_member:
  assumes "t \<in> set (annual_transactions lib c hdrs)"
  shows "tx_Valid t \<and>
         (\<exists>tds. annual4a_row_columns lib c tds = Some t \<or> annual4b_row_columns lib c tds = Some t)"
proof -
  from assms have "t \<in> set (filter tx_Valid (table_rows (annual4a_cell lib c)
                      (case last_section lib part4a hdrs of None \<Rightarrow> [] | Some trs \<Rightarrow> trs))) \<or>
                   t \<in> set (filter tx_Valid (table_rows (annual4b_cell lib c)
                      (case last_section lib part4b hdrs of None \<Rightarrow> [] | Some trs \<Rightarrow> trs)))"
    by (auto simp: annual_transactions_def Let_def annual_headings_fold filter_in_place_filter
        table_rows_def split: option.splits)
  then show ?thesis
    unfolding annual4a_rows annual4b_rows
    by (auto dest!: map_filter_member dest: annual4a_row_some annual4b_row_some)
qed

lemma search_page_member:
  "r \<in> set (search_page_results lib c rows) \<Longrightarrow>
   sr_Valid r \<and> (\<exists>row. search_row_columns lib c row = Some r)"
  unfolding search_page_prefix
  by (auto dest!: set_takeWhileD dest: search_row_some)

lemma searchReportDataPaged_member:
  "searchReportDataPaged lib srv c q start len w = (Inr (results, remainder), w1) \<Longrightarrow>
   r \<in> set results \<Longrightarrow> sr_Valid r \<and> (\<exists>row. search_row_columns lib c row = Some r)"
  by (auto simp: searchReportDataPaged_def Let_def
      split: prod.splits option.splits sum.splits if_splits dest: search_page_member)

lemma SearchReportData_loop_member:
  "SearchReportData_loop lib srv c q start remainder finalResults w = Some y \<Longrightarrow>
   (\<forall>r \<in> set finalResults. sr_Valid r \<and> (\<exists>row. search_row_columns lib c row = Some r)) \<longrightarrow>
   (\<forall>rs w'. y = (Inr rs, w') \<longrightarrow>
      (\<forall>r \<in> set rs. sr_Valid r \<and> (\<exists>row. search_row_columns lib c row = Some r)))"
proof (induction rule: SearchReportData_loop.raw_induct [rotated 1, consumes 1, case_names step])
  case (step loop lib srv c q start remainder finalResults w y)
  show ?case
  proof (intro impI allI)
    fix rs w'
    assume acc: "\<forall>r \<in> set finalResults.
                   sr_Valid r \<and> (\<exists>row. search_row_columns lib c row = Some r)"
      and y: "y = (Inr rs, w')"
    show "\<forall>r \<in> set rs. sr_Valid r \<and> (\<exists>row. search_row_columns lib c row = Some r)"
    proof (cases "0 < remainder")
      case False
      with step(2) acc y show ?thesis by simp
    next
      case True
      obtain res w1 where p: "searchReportDataPaged lib srv c q start 100 w = (res, w1)"
        by (metis surj_pair)
      show ?thesis
      proof (cases res)
        case (Inl err)
        with step(2) True p y show ?thesis by simp
      next
        case (Inr pr)
        obtain results remainder1 where pr: "pr = (results, remainder1)" by (cases pr)
        have page: "searchReportDataPaged lib srv c q start 100 w = (Inr (results, remainder1), w1)"
          using p Inr pr by simp
        have rec: "loop lib srv c q (go_int (start + 100)) remainder1 (finalResults @ results) w1 = Some y"
          using step(2) True page by simp
        have "\<forall>r \<in> set (finalResults @ results).
                sr_Valid r \<and> (\<exists>row. search_row_columns lib c row = Some r)"
          using acc searchReportDataPaged_member [OF page] by auto
        with step(1) [OF rec] y show ?thesis by blast
      qed
    qed
  qed
qed

text \<open>
  Claim C7. The claim has a failed image contribute no entry. \<open>HandlePaperSearchResult\<close>
  allocates one slot for each image and returns the slice unfiltered: an image without
  a \<open>src\<close> attribute leaves a nil entry at its index, and \<open>ReportToJson\<close> on that report
  panics in \<open>MarshalJSON\<close>.
\<close>

theorem paper_pages_keep_nil_slot:
  "fst (HandlePaperSearchResult ex_lib ex_server ex_client
          (ex_result PaperFormat ''/search/view/paper/abc-789/'') ex_world) =
     Inr \<lparr>PageURLs = [None, Some page1]\<rparr> \<and>
   paper_pages ex_lib [None, Some ''/media/page1.png''] = \<lparr>PageURLs = [None, Some page1]\<rparr> \<and>
   ReportToJson ex_lib (ex_result PaperFormat ''/search/print/paper/abc-789/'')
     \<lparr>pr_ReportFormat = PaperFormat, pr_Transactions = None,
      pr_Pages = paper_pages ex_lib [None, Some ''/media/page1.png'']\<rparr> = Inl NilPointerPanic"
  by code_simp

text \<open>
  Claim C9. Every search result that \<open>SearchReportData\<close> returns, and every transaction
  that \<open>HandlePTRSearchResult\<close> or \<open>HandleAnnualSearchResult\<close> returns, has its validity
  flag set and is the complete parse of a row by the column table of its layout: no
  unit with a field left at its zero value by a failed parse is returned.
\<close>

theorem returned_units_fully_parsed:
  "(SearchReportData lib srv c q w = Some (Inr rs, w1) \<longrightarrow>
      (\<forall>r \<in> set rs. sr_Valid r \<and> (\<exists>row. search_row_columns lib c row = Some r))) \<and>
   (HandlePTRSearchResult lib srv c result w = (Inr txs, c2, w2) \<longrightarrow>
      (\<forall>t \<in> set txs. tx_Valid t \<and> (\<exists>tds. ptr_row_columns lib c tds = Some t))) \<and>
   (HandleAnnualSearchResult lib srv c result w = (Inr txs', c3, w3) \<longrightarrow>
      (\<forall>t \<in> set txs'. tx_Valid t \<and>
         (\<exists>tds. annual4a_row_columns lib c tds = Some t \<or>
                annual4b_row_columns lib c tds = Some t)))"
proof (intro conjI impI)
  assume "SearchReportData lib srv c q w = Some (Inr rs, w1)"
  then have "SearchReportData_loop lib srv c q 0 1 [] w = Some (Inr rs, w1)"
    by (simp only: SearchReportData_def)
  from SearchReportData_loop_member [OF this]
  show "\<forall>r \<in> set rs. sr_Valid r \<and> (\<exists>row. search_row_columns lib c row = Some r)"
    by simp
next
  assume "HandlePTRSearchResult lib srv c result w = (Inr txs, c2, w2)"
  then obtain u doc w0 where
    e: "(if \<not> authed c then AcceptDisclaimer lib srv c w else (None, c, w)) = (None, c2, w0)"
    and "sr_FileURL result = Some u"
    and "fetch_document lib srv c2 (url_String lib u) w0 = (Inr doc, w2)"
    and t: "txs = ptr_transactions lib c2 (doc_table_rows doc)"
    by (rule HandlePTRSearchResult_success)
  from ensure_authed_client [OF e] have d: "dateLayout c2 = dateLayout c" by simp
  have txs: "txs = List.map_filter (ptr_row_columns lib c) (doc_table_rows doc)"
    unfolding t ptr_transactions_columns row_columns_dateLayout [OF d] ..
  show "\<forall>t \<in> set txs. tx_Valid t \<and> (\<exists>tds. ptr_row_columns lib c tds = Some t)"
  proof
    fix t assume "t \<in> set txs"
    then obtain tds where "ptr_row_columns lib c tds = Some t"
      unfolding txs by (blast dest: map_filter_member)
    then show "tx_Valid t \<and> (\<exists>tds. ptr_row_columns lib c tds = Some t)"
      using ptr_row_some_valid by blast
  qed
next
  assume "HandleAnnualSearchResult lib srv c result w = (Inr txs', c3, w3)"
  then obtain u doc w0 where
    e: "(if \<not> authed c then AcceptDisclaimer lib srv c w else (None, c, w)) = (None, c3, w0)"
    and "sr_FileURL result = Some u"
    and "fetch_document lib srv c3 (url_String lib u) w0 = (Inr doc, w3)"
    and t: "txs' = annual_transactions lib c3 (doc_headings doc)"
    by (rule HandleAnnualSearchResult_success)
  from ensure_authed_client [OF e] have d: "dateLayout c3 = dateLayout c" by simp
  show "\<forall>t \<in> set txs'. tx_Valid t \<and>
         (\<exists>tds. annual4a_row_columns lib c tds = Some t \<or>
                annual4b_row_columns lib c tds = Some t)"
  proof
    fix t assume "t \<in> set txs'"
    then have "t \<in> set (annual_transactions lib c3 (doc_headings doc))" by (simp only: t)
    from annual_transactions_member [OF this]
    show "tx_Valid t \<and>
         (\<exists>tds. annual4a_row_columns lib c tds = Some t \<or>
                annual4b_row_columns lib c tds = Some t)"
      unfolding row_columns_dateLayout [OF d] .
  qed
qed

theorem returned_units_fully_parsed_witness:
  "SearchReportData ex_lib (page_server ''single'') ex_client ex_args ex_world =
     Some (Inr [jane_result], snd ex_search_run) \<and>
   sr_Valid jane_result \<and>
   (\<exists>row. search_row_columns ex_lib ex_client row = Some jane_result) \<and>
   ex_ptr_run = (Inr [aapl], fst (snd ex_ptr_run), snd (snd ex_ptr_run)) \<and>
   tx_Valid aapl \<and>
   (\<exists>tds. ptr_row_columns ex_lib ex_client tds = Some aapl) \<and>
   ex_annual_run = (Inr [fund_a, fund_b], fst (snd ex_annual_run), snd (snd ex_annual_run)) \<and>
   tx_Valid fund_a \<and>
   (\<exists>tds. annual4a_row_columns ex_lib ex_client tds = Some fund_a \<or>
          annual4b_row_columns ex_lib ex_client tds = Some fund_a) \<and>
   tx_Valid fund_b \<and>
   (\<exists>tds. annual4a_row_columns ex_lib ex_client tds = Some fund_b \<or>
          annual4b_row_columns ex_lib ex_client tds = Some fund_b)"
proof -
  have "SearchReportData ex_lib (page_server ''single'') ex_client ex_args ex_world \<noteq> None"
    by code_simp
  moreover have "fst ex_search_run = Inr [jane_result]"
    unfolding ex_search_run_def by code_simp
  ultimately have s: "SearchReportData ex_lib (page_server ''single'') ex_client ex_args ex_world =
     Some (Inr [jane_result], snd ex_search_run)"
    by (auto simp: ex_search_run_def prod_eq_iff)
  have "fst ex_ptr_run = Inr [aapl]"
    unfolding ex_ptr_run_def by code_simp
  then have p: "HandlePTRSearchResult ex_lib ex_server ex_client
       (ex_result PTRFormat ''/search/view/ptr/abc-123/'') ex_world =
       (Inr [aapl], fst (snd ex_ptr_run), snd (snd ex_ptr_run))"
    by (simp add: ex_ptr_run_def prod_eq_iff)
  have "fst ex_annual_run = Inr [fund_a, fund_b]"
    unfolding ex_annual_run_def by code_simp
  then have a: "HandleAnnualSearchResult ex_lib ex_server ex_client
       (ex_result AnnualFormat ''/search/view/annual/abc-456/'') ex_world =
       (Inr [fund_a, fund_b], fst (snd ex_annual_run), snd (snd ex_annual_run))"
    by (simp add: ex_annual_run_def prod_eq_iff)
  note t1 = returned_units_fully_parsed [THEN conjunct1, rule_format, OF s]
  note t2 = returned_units_fully_parsed [THEN conjunct2, THEN conjunct1, rule_format, OF p]
  note t3 = returned_units_fully_parsed [THEN conjunct2, THEN conjunct2, rule_format, OF a]
  show ?thesis
    using s p a t1 [of jane_result] t2 [of aapl] t3 [of fund_a] t3 [of fund_b]
    by (simp add: ex_ptr_run_def ex_annual_run_def)
qed

section \<open>Pagination\<close>

text \<open>\<open>(R + 99) div 100\<close> is the number \<open>n\<close> with \<open>100 (n - 1) < R \<le> 100 n\<close>, the ceiling of
  \<open>R / 100\<close>.\<close>

lemma ceil_div_100: "100 * ((R + 99) div 100 - 1) < R \<and> R \<le> 100 * ((R + 99) div 100)" for R :: int
proof -
  define d m where "d = (R + 99) div 100" and "m = (R + 99) mod 100"
  have e: "R + 99 = 100 * d + m" unfolding d_def m_def by simp
  have "0 \<le> m" "m < 100" unfolding m_def by simp_all
  with e have "100 * (d - 1) < R \<and> R \<le> 100 * d" by (simp add: algebra_simps)
  then show ?thesis unfolding d_def .
qed

lemma go_int_id: "- (2 ^ 63) \<le> x \<Longrightarrow> x < 2 ^ 63 \<Longrightarrow> go_int x = x"
  unfolding go_int_def by (simp add: mod_pos_pos_trivial)

lemma pages_step:
  assumes d: "(0::int) < d" and s: "Suc m = nat (max 1 ((d + 100 + 99) div 100))"
  shows "m = nat (max 1 ((d + 99) div 100))"
proof -
  have "(d + 99 + 100) div 100 = (d + 99) div 100 + 1" by (rule div_add_self2) simp
  then have e: "(d + 100 + 99) div 100 = (d + 99) div 100 + 1" by (simp add: add.commute add.left_commute)
  have "(100::int) div 100 \<le> (d + 99) div 100" using d by (intro zdiv_mono1) auto
  then have g: "1 \<le> (d + 99) div 100" by simp
  from s e g show ?thesis by (simp add: max_def)
qed
lemma pages_last:
  assumes d: "\<not> (0::int) < d" and s: "Suc m = nat (max 1 ((d + 100 + 99) div 100))"
  shows "m = 0"
proof -
  have "(d + 100 + 99) div 100 \<le> (199::int) div 100" using d by (intro zdiv_mono1) auto
  then have "(d + 100 + 99) div 100 \<le> 1" by simp
  with s show ?thesis by (simp add: max_def split: if_splits)
qed

lemma search_request_start:
  "map_of (rq_form (search_request lib c q start len tok)) ''start'' = Some (strconv_Itoa start)"
  by (simp add: search_request_def search_form_def Let_def)

lemma searchReportDataPaged_ok:
  assumes ok: "\<And>h e. \<exists>resp page. srv h e = Inr resp \<and>
                 rs_content_type resp = ''application/json'' \<and>
                 json_Decode lib (rs_body resp) = Inr page \<and>
                 Result page = ''ok'' \<and> RecordsTotal page = R"
    and nr: "http_NewRequest_error lib ''POST'' (url_String lib (searchDataURL c)) = None"
  obtains page resp tok w' where
    "searchReportDataPaged lib srv c q start len w =
       (Inr (search_page_results lib c (Data page), go_int (go_int (R - start) - len)), w')"
    "sent w' = sent w @ [\<lparr>via = DefaultClient, request = search_request lib c q start len tok\<rparr>]"
    "srv (sent w) \<lparr>via = DefaultClient, request = search_request lib c q start len tok\<rparr> =
       Inr resp"
    "json_Decode lib (rs_body resp) = Inr page"
proof -
  obtain tok w1 where g: "genCSRFToken lib w = (tok, w1)" by (metis surj_pair)
  have w1: "sent w1 = sent w"
    using g by (auto simp: genCSRFToken_def)
  define entry where "entry = \<lparr>via = DefaultClient, request = search_request lib c q start len tok\<rparr>"
  from ok [of "sent w1" entry] obtain resp page where
    r: "srv (sent w1) entry = Inr resp" "rs_content_type resp = ''application/json''"
       "json_Decode lib (rs_body resp) = Inr page" "Result page = ''ok''"
       "RecordsTotal page = R"
    by blast
  have d: "http_Client_Do lib srv DefaultClient (search_request lib c q start len tok) w1 =
           (Inr resp, w1\<lparr>sent := sent w1 @ [entry]\<rparr>)"
    using r(1) by (simp add: http_Client_Do_def DefaultClient_def entry_def Let_def)
  have "searchReportDataPaged lib srv c q start len w =
       (Inr (search_page_results lib c (Data page), go_int (go_int (R - start) - len)),
        w1\<lparr>sent := sent w1 @ [entry]\<rparr>)"
    using g nr d r by (simp add: searchReportDataPaged_def Let_def)
  then show ?thesis
    using that [of page "w1\<lparr>sent := sent w1 @ [entry]\<rparr>" tok resp] w1 r(1,3)
    by (simp add: entry_def)
qed

text \<open>The loop from a round on: \<open>n\<close> more requests, and the result lists of their pages
  appended to what was collected before.\<close>

lemma loop_pages:
  assumes ok: "\<And>h e. \<exists>resp page. srv h e = Inr resp \<and>
                 rs_content_type resp = ''application/json'' \<and>
                 json_Decode lib (rs_body resp) = Inr page \<and>
                 Result page = ''ok'' \<and> RecordsTotal page = R"
    and nr: "http_NewRequest_error lib ''POST'' (url_String lib (searchDataURL c)) = None"
    and R: "R < 2 ^ 63"
  shows "0 < remainder \<Longrightarrow> 0 \<le> start \<Longrightarrow> start \<le> R \<Longrightarrow>
         n = nat (max 1 ((R - start + 99) div 100)) \<Longrightarrow>
         \<exists>new pages w'.
           SearchReportData_loop lib srv c q start remainder acc w =
             Some (Inr (acc @ concat (map (\<lambda>p. search_page_results lib c (Data p)) pages)), w') \<and>
           sent w' = sent w @ new \<and> length new = n \<and> length pages = n \<and>
           map (\<lambda>e. map_of (rq_form (request e)) ''start'') new =
             map (\<lambda>k. Some (strconv_Itoa (start + 100 * int k))) [0..<n] \<and>
           (\<forall>k<n. \<exists>resp. srv (sent w @ take k new) (new ! k) = Inr resp \<and>
                          json_Decode lib (rs_body resp) = Inr (pages ! k))"
proof (induction n arbitrary: start remainder acc w)
  case 0
  have "0 < nat (max 1 ((R - start + 99) div 100))"
    by (simp only: zero_less_nat_eq max.strict_coboundedI1 zero_less_one)
  with 0(4) show ?case by (simp only: less_irrefl)
next
  case (Suc m)
  note pos = Suc.prems(1) and lo = Suc.prems(2) and hi = Suc.prems(3)
  obtain page resp tok w1 where
    p: "searchReportDataPaged lib srv c q start 100 w =
          (Inr (search_page_results lib c (Data page), go_int (go_int (R - start) - 100)), w1)"
    and s1: "sent w1 = sent w @ [\<lparr>via = DefaultClient, request = search_request lib c q start 100 tok\<rparr>]"
    and r1: "srv (sent w) \<lparr>via = DefaultClient, request = search_request lib c q start 100 tok\<rparr> =
               Inr resp"
    and d1: "json_Decode lib (rs_body resp) = Inr page"
    by (rule searchReportDataPaged_ok [where srv = srv and lib = lib and R = R and c = c, OF ok nr])
  define e where "e = \<lparr>via = DefaultClient, request = search_request lib c q start 100 tok\<rparr>"
  define rs where "rs = search_page_results lib c (Data page)"
  have "go_int (R - start) = R - start"
    using lo hi R by (intro go_int_id) auto
  moreover have "go_int (R - start - 100) = R - start - 100"
    using lo hi R by (intro go_int_id) auto
  ultimately have rem: "go_int (go_int (R - start) - 100) = R - start - 100" by simp
  have p': "searchReportDataPaged lib srv c q start 100 w = (Inr (rs, R - start - 100), w1)"
    using p rem by (simp add: rs_def)
  have e1: "R - start + 99 = (R - start - 100) + 100 + 99" by simp
  have sm: "Suc m = nat (max 1 ((R - start - 100 + 100 + 99) div 100))"
    using Suc.prems(4) by (simp only: e1)
  have rest: "\<exists>new pages w'.
           SearchReportData_loop lib srv c q (go_int (start + 100)) (R - start - 100) (acc @ rs) w1 =
             Some (Inr ((acc @ rs) @ concat (map (\<lambda>p. search_page_results lib c (Data p)) pages)), w') \<and>
           sent w' = sent w1 @ new \<and> length new = m \<and> length pages = m \<and>
           map (\<lambda>e. map_of (rq_form (request e)) ''start'') new =
             map (\<lambda>k. Some (strconv_Itoa (start + 100 + 100 * int k))) [0..<m] \<and>
           (\<forall>k<m. \<exists>resp. srv (sent w1 @ take k new) (new ! k) = Inr resp \<and>
                          json_Decode lib (rs_body resp) = Inr (pages ! k))"
  proof (cases "0 < R - start - 100")
    case True
    have s: "go_int (start + 100) = start + 100"
      using True lo R by (intro go_int_id) auto
    have e2: "R - start - 100 + 99 = R - (start + 100) + 99" by simp
    have m: "m = nat (max 1 ((R - (start + 100) + 99) div 100))"
      using pages_step [OF True sm] by (simp only: e2)
    have l2: "0 \<le> start + 100" using lo by simp
    have h2: "start + 100 \<le> R" using True by simp
    show ?thesis
      unfolding s by (rule Suc.IH [OF True l2 h2 m])
  next
    case False
    from pages_last [OF False sm] have m0: "m = 0" .
    have "SearchReportData_loop lib srv c q (go_int (start + 100)) (R - start - 100)
                  (acc @ rs) w1 = Some (Inr (acc @ rs), w1)"
      using False by (subst SearchReportData_loop.simps) simp
    then show ?thesis
      unfolding m0 by (intro exI [of _ "[]"] exI [of _ w1]) simp
  qed
  then obtain new pages w' where
    l: "SearchReportData_loop lib srv c q (go_int (start + 100)) (R - start - 100) (acc @ rs) w1 =
          Some (Inr ((acc @ rs) @ concat (map (\<lambda>p. search_page_results lib c (Data p)) pages)), w')"
    and sn: "sent w' = sent w1 @ new" and ln: "length new = m" and lp: "length pages = m"
    and st: "map (\<lambda>e. map_of (rq_form (request e)) ''start'') new =
             map (\<lambda>k. Some (strconv_Itoa (start + 100 + 100 * int k))) [0..<m]"
    and an: "\<forall>k<m. \<exists>resp. srv (sent w1 @ take k new) (new ! k) = Inr resp \<and>
                          json_Decode lib (rs_body resp) = Inr (pages ! k)"
    by blast
  have loop: "SearchReportData_loop lib srv c q start remainder acc w =
        Some (Inr (acc @ concat (map (\<lambda>p. search_page_results lib c (Data p)) (page # pages))), w')"
    using pos p' l by (subst SearchReportData_loop.simps) (simp add: rs_def)
  have sent: "sent w' = sent w @ (e # new)"
    using sn s1 by (simp add: e_def)
  have "map (\<lambda>k. Some (strconv_Itoa (start + 100 * int k))) [0..<Suc m] =
        Some (strconv_Itoa start) #
        map (\<lambda>k. Some (strconv_Itoa (start + 100 + 100 * int k))) [0..<m]"
    by (simp add: map_upt_Suc algebra_simps del: upt_Suc)
  then have starts: "map (\<lambda>e. map_of (rq_form (request e)) ''start'') (e # new) =
             map (\<lambda>k. Some (strconv_Itoa (start + 100 * int k))) [0..<Suc m]"
    using st by (simp add: e_def search_request_start del: upt_Suc)
  have answers: "\<forall>k<Suc m. \<exists>resp. srv (sent w @ take k (e # new)) ((e # new) ! k) = Inr resp \<and>
                          json_Decode lib (rs_body resp) = Inr ((page # pages) ! k)"
  proof (intro allI impI)
    fix k assume k: "k < Suc m"
    show "\<exists>resp. srv (sent w @ take k (e # new)) ((e # new) ! k) = Inr resp \<and>
                          json_Decode lib (rs_body resp) = Inr ((page # pages) ! k)"
    proof (cases k)
      case 0
      with r1 d1 show ?thesis by (simp add: e_def)
    next
      case (Suc j)
      with k have "j < m" by simp
      with an obtain resp' where "srv (sent w1 @ take j new) (new ! j) = Inr resp'"
        "json_Decode lib (rs_body resp') = Inr (pages ! j)" by blast
      with Suc s1 show ?thesis by (simp add: e_def)
    qed
  qed
  show ?case
    using loop sent starts answers ln lp
    by (intro exI [of _ "e # new"] exI [of _ "page # pages"] exI [of _ w']) simp
qed

lemma search_page_all_rows:
  "\<forall>row \<in> set rows. search_row_columns lib c row \<noteq> None \<Longrightarrow>
   search_page_results lib c rows = map (\<lambda>row. the (search_row_columns lib c row)) rows"
  by (simp add: search_page_prefix takeWhile_eq_all_conv [THEN iffD2])

text \<open>
  Claim C1, as the code has it. Let every page request be answered with a JSON page of
  status \<open>ok\<close> that reports the same \<open>recordsTotal\<close> \<open>R\<close>, \<open>0 \<le> R < 2^63\<close>. Then
  \<open>SearchReportData\<close> returns after exactly \<open>max 1 (ceil (R / 100))\<close> page requests, whose
  \<open>start\<close> fields are 0, 100, 200, ... in this order; \<open>pages\<close> are the decoded answers to
  these requests, and the result is the result lists of the pages, appended in request
  order. Where every row of these pages parses, that is every row of every page, in
  order. The first request is always sent (the loop starts with \<open>remainder = 1\<close>), so a
  search with \<open>R = 0\<close> takes one request, not \<open>ceil (0 / 100) = 0\<close>.
\<close>

theorem SearchReportData_page_requests:
  assumes ok: "\<And>h e. \<exists>resp page. srv h e = Inr resp \<and>
                 rs_content_type resp = ''application/json'' \<and>
                 json_Decode lib (rs_body resp) = Inr page \<and>
                 Result page = ''ok'' \<and> RecordsTotal page = R"
    and nr: "http_NewRequest_error lib ''POST'' (url_String lib (searchDataURL c)) = None"
    and R: "0 \<le> R" "R < 2 ^ 63"
  shows "\<exists>new pages w'.
           SearchReportData lib srv c q w =
             Some (Inr (concat (map (\<lambda>p. search_page_results lib c (Data p)) pages)), w') \<and>
           sent w' = sent w @ new \<and>
           length new = nat (max 1 ((R + 99) div 100)) \<and>
           length pages = length new \<and>
           map (\<lambda>e. map_of (rq_form (request e)) ''start'') new =
             map (\<lambda>k. Some (strconv_Itoa (100 * int k))) [0..<length new] \<and>
           (\<forall>k<length new. \<exists>resp. srv (sent w @ take k new) (new ! k) = Inr resp \<and>
                                   json_Decode lib (rs_body resp) = Inr (pages ! k)) \<and>
           ((\<forall>p \<in> set pages. \<forall>row \<in> set (Data p). search_row_columns lib c row \<noteq> None) \<longrightarrow>
              concat (map (\<lambda>p. search_page_results lib c (Data p)) pages) =
              concat (map (\<lambda>p. map (\<lambda>row. the (search_row_columns lib c row)) (Data p)) pages))"
proof -
  let ?n = "nat (max 1 ((R + 99) div 100))"
  have n: "?n = nat (max 1 ((R - 0 + 99) div 100))" by (simp only: diff_zero)
  from loop_pages [where srv = srv and lib = lib and R = R and c = c and q = q and acc = "[]"
      and w = w, OF ok nr R(2) zero_less_one order_refl R(1) n]
  obtain new pages w' where
    l: "SearchReportData_loop lib srv c q 0 1 [] w =
          Some (Inr ([] @ concat (map (\<lambda>p. search_page_results lib c (Data p)) pages)), w')"
    and s: "sent w' = sent w @ new" and ln: "length new = ?n" and lp: "length pages = ?n"
    and st: "map (\<lambda>e. map_of (rq_form (request e)) ''start'') new =
             map (\<lambda>k. Some (strconv_Itoa (0 + 100 * int k))) [0..<?n]"
    and an: "\<forall>k<?n. \<exists>resp. srv (sent w @ take k new) (new ! k) = Inr resp \<and>
                          json_Decode lib (rs_body resp) = Inr (pages ! k)"
    by blast
  have all: "(\<forall>p \<in> set pages. \<forall>row \<in> set (Data p). search_row_columns lib c row \<noteq> None) \<longrightarrow>
              concat (map (\<lambda>p. search_page_results lib c (Data p)) pages) =
              concat (map (\<lambda>p. map (\<lambda>row. the (search_row_columns lib c row)) (Data p)) pages)"
  proof
    assume a: "\<forall>p \<in> set pages. \<forall>row \<in> set (Data p). search_row_columns lib c row \<noteq> None"
    have "map (\<lambda>p. search_page_results lib c (Data p)) pages =
          map (\<lambda>p. map (\<lambda>row. the (search_row_columns lib c row)) (Data p)) pages"
      by (rule map_cong [OF refl]) (use a in \<open>simp add: search_page_all_rows\<close>)
    then show "concat (map (\<lambda>p. search_page_results lib c (Data p)) pages) =
              concat (map (\<lambda>p. map (\<lambda>row. the (search_row_columns lib c row)) (Data p)) pages)"
      by (rule arg_cong [where f = concat])
  qed
  have l': "SearchReportData lib srv c q w =
             Some (Inr (concat (map (\<lambda>p. search_page_results lib c (Data p)) pages)), w')"
    using l by (simp add: SearchReportData_def)
  have st': "map (\<lambda>e. map_of (rq_form (request e)) ''start'') new =
             map (\<lambda>k. Some (strconv_Itoa (100 * int k))) [0..<length new]"
    using st by (simp only: ln add_0)
  have an': "\<forall>k<length new. \<exists>resp. srv (sent w @ take k new) (new ! k) = Inr resp \<and>
                                   json_Decode lib (rs_body resp) = Inr (pages ! k)"
    using an by (simp only: ln)
  have lp': "length pages = length new" using ln lp by simp
  from l' s ln lp' st' an' all show ?thesis by blast
qed

theorem SearchReportData_page_requests_witness:
  "fst (the (SearchReportData ex_lib (page_server ''page'') ex_client ex_args ex_world)) =
     Inr [jane_result, jane_result] \<and>
   length (sent (snd (the (SearchReportData ex_lib (page_server ''page'') ex_client ex_args
     ex_world)))) = 2 \<and>
   map (\<lambda>e. map_of (rq_form (request e)) ''start'')
     (sent (snd (the (SearchReportData ex_lib (page_server ''page'') ex_client ex_args
        ex_world)))) = [Some ''0'', Some ''100'']"
proof -
  have ok: "\<And>h e. \<exists>resp page. page_server ''page'' h e = Inr resp \<and>
                 rs_content_type resp = ''application/json'' \<and>
                 json_Decode ex_lib (rs_body resp) = Inr page \<and>
                 Result page = ''ok'' \<and> RecordsTotal page = 150"
    by (simp add: page_server_def ex_lib_def ex_pages_def)
  have nr: "http_NewRequest_error ex_lib ''POST'' (url_String ex_lib (searchDataURL ex_client)) = None"
    by (simp add: ex_lib_def)
  have r1: "(0::int) \<le> 150" and r2: "(150::int) < 2 ^ 63" by simp_all
  have n: "nat (max 1 ((150 + 99) div 100)) = (2::nat)" by simp
  have dec: "\<And>h e resp. page_server ''page'' h e = Inr resp \<Longrightarrow>
               json_Decode ex_lib (rs_body resp) = Inr ex_page"
    by (auto simp: page_server_def ex_lib_def ex_pages_def ex_page_def)
  from SearchReportData_page_requests [where srv = "page_server ''page''" and lib = ex_lib
      and R = 150 and c = ex_client and q = ex_args and w = ex_world, OF ok nr r1 r2]
  obtain new pages w' where
    l: "SearchReportData ex_lib (page_server ''page'') ex_client ex_args ex_world =
          Some (Inr (concat (map (\<lambda>p. search_page_results ex_lib ex_client (Data p)) pages)), w')"
    and s: "sent w' = sent ex_world @ new" and ln: "length new = 2" and lp: "length pages = length new"
    and st: "map (\<lambda>e. map_of (rq_form (request e)) ''start'') new =
             map (\<lambda>k. Some (strconv_Itoa (100 * int k))) [0..<length new]"
    and an: "\<forall>k<length new. \<exists>resp. page_server ''page'' (sent ex_world @ take k new) (new ! k) = Inr resp \<and>
                                   json_Decode ex_lib (rs_body resp) = Inr (pages ! k)"
    unfolding n by blast
  have "pages ! 0 = ex_page" "pages ! 1 = ex_page"
    using an ln dec by (metis Inr_inject zero_less_numeral, metis Inr_inject one_less_numeral_iff semiring_norm(76))
  with lp ln have pages: "pages = [ex_page, ex_page]"
    by (auto simp: list_eq_iff_nth_eq less_Suc_eq eval_nat_numeral)
  have rows: "search_page_results ex_lib ex_client (Data ex_page) = [jane_result]"
    by code_simp
  have i: "strconv_Itoa 0 = ''0''" "strconv_Itoa 100 = ''100''" by code_simp+
  have u: "[0..<2] = [0, Suc 0]" by (simp add: upt_rec)
  have "sent ex_world = []" by (simp add: ex_world_def)
  with l s ln st pages rows i u show ?thesis by simp
qed

text \<open>The claim as stated fails for \<open>R = 0\<close>: one request is sent.\<close>

theorem SearchReportData_zero_total_one_request:
  "json_Decode ex_lib ''empty'' =
     Inr \<lparr>Draw = 1, RecordsTotal = 0, RecordsFiltered = 0, Data = [], Result = ''ok''\<rparr> \<and>
   length (sent (snd (the (SearchReportData ex_lib (page_server ''empty'') ex_client ex_args
     ex_world)))) = 1 \<and>
   length (sent (snd (the (SearchReportData ex_lib (page_server ''empty'') ex_client ex_args
     ex_world)))) \<noteq> nat ((0 + 99) div 100)"
  by code_simp

section \<open>Requests of the handshake and of the fetches\<close>

text \<open>
  What each network function adds to the list of requests sent, and what it does to
  the cookie jars.
\<close>

lemma http_Client_Do_sent:
  assumes "http_Client_Do lib srv cl req w = (r, w')"
  shows "sent w' = sent w @
           [\<lparr>via = cl,
             request = req\<lparr>rq_cookies := rq_cookies req @
               (case Jar cl of None \<Rightarrow> [] | Some a \<Rightarrow> jar_Cookies lib (jars w a) (rq_url req))\<rparr>\<rparr>]"
    and "rand_draws w' = rand_draws w"
    and "Jar cl = None \<Longrightarrow> jars w' = jars w"
  using assms
  by (auto simp: http_Client_Do_def Let_def split: sum.splits option.splits if_splits)

lemma parseCSRFToken_sent:
  assumes "parseCSRFToken lib srv c url w = (r, w')"
  shows "(\<exists>err. r = Inl err \<and> w' = w) \<or>
         (\<exists>g. sent w' = sent w @ [g] \<and> via g = client c \<and> rq_method (request g) = ''GET'' \<and>
              rq_url (request g) = url_String lib url)"
proof (cases "http_NewRequest_error lib ''GET'' (url_String lib url)")
  case (Some err)
  with assms show ?thesis by (auto simp: parseCSRFToken_def)
next
  case None
  let ?req = "\<lparr>rq_method = ''GET'', rq_url = url_String lib url,
                   rq_headers = [(''User-Agent'', userAgent c)], rq_cookies = [], rq_form = []\<rparr>"
  obtain r1 w1 where d: "http_Client_Do lib srv (client c) ?req w = (r1, w1)" by (metis surj_pair)
  have "w' = w1"
    using assms None d by (auto simp: parseCSRFToken_def Let_def split: sum.splits if_splits)
  with http_Client_Do_sent(1) [OF d] show ?thesis by simp
qed

lemma AcceptDisclaimer_ok:
  assumes "AcceptDisclaimer lib srv c w = (None, c', w')"
  shows "c' = c\<lparr>authed := True\<rparr> \<and>
         (\<exists>g p. sent w' = sent w @ [g, p] \<and> home_GET lib c g \<and> home_POST lib c p)"
proof -
  obtain r1 w1 where t: "parseCSRFToken lib srv c (homeURL c) w = (r1, w1)" by (metis surj_pair)
  from assms t obtain tok where r1: "r1 = Inr tok"
    by (cases r1) (auto simp: AcceptDisclaimer_def)
  from parseCSRFToken_sent [OF t] r1 obtain g where
    g: "sent w1 = sent w @ [g]" "home_GET lib c g"
    by (auto simp: home_GET_def)
  have nr: "http_NewRequest_error lib ''POST'' (url_String lib (homeURL c)) = None"
    using assms t r1 by (cases "http_NewRequest_error lib ''POST'' (url_String lib (homeURL c))")
      (auto simp: AcceptDisclaimer_def Let_def)
  let ?data = "[(''prohibition_agreement'', ''1''), (''csrfmiddlewaretoken'', tok)]"
  let ?req = "\<lparr>rq_method = ''POST'', rq_url = url_String lib (homeURL c),
                           rq_headers =
                             [(''Referer'', url_String lib (homeURL c)),
                              (''Content-Type'', ''application/x-www-form-urlencoded''),
                              (''Content-Length'',
                               strconv_Itoa (int (length (url_Values_Encode lib ?data)))),
                              (''User-Agent'', userAgent c)],
                           rq_cookies = [], rq_form = ?data\<rparr>"
  obtain r2 w2 where d: "http_Client_Do lib srv (client c) ?req w1 = (r2, w2)" by (metis surj_pair)
  have "w' = w2 \<and> c' = c\<lparr>authed := True\<rparr>"
    using assms t r1 nr d by (auto simp: AcceptDisclaimer_def Let_def split: sum.splits)
  with http_Client_Do_sent(1) [OF d] g show ?thesis
    by (auto simp: home_POST_def)
qed

lemma AcceptDisclaimer_err:
  assumes "AcceptDisclaimer lib srv c w = (Some err, c', w')"
  shows "c' = c \<and>
         (\<exists>new. sent w' = sent w @ new \<and> length new \<le> 2 \<and>
            (\<forall>e \<in> set new. rq_url (request e) = url_String lib (homeURL c)))"
proof -
  obtain r1 w1 where t: "parseCSRFToken lib srv c (homeURL c) w = (r1, w1)" by (metis surj_pair)
  from parseCSRFToken_sent [OF t] have
    s1: "\<exists>new. sent w1 = sent w @ new \<and> length new \<le> 1 \<and>
            (\<forall>e \<in> set new. rq_url (request e) = url_String lib (homeURL c))"
    by auto
  show ?thesis
  proof (cases r1)
    case (Inl e1)
    with assms t have "c' = c" "w' = w1" by (auto simp: AcceptDisclaimer_def)
    with s1 show ?thesis by auto
  next
    case (Inr tok)
    show ?thesis
    proof (cases "http_NewRequest_error lib ''POST'' (url_String lib (homeURL c))")
      case (Some e2)
      with assms t Inr have "c' = c" "w' = w1" by (auto simp: AcceptDisclaimer_def Let_def)
      with s1 show ?thesis by auto
    next
      case None
      let ?data = "[(''prohibition_agreement'', ''1''), (''csrfmiddlewaretoken'', tok)]"
      let ?req = "\<lparr>rq_method = ''POST'', rq_url = url_String lib (homeURL c),
                           rq_headers =
                             [(''Referer'', url_String lib (homeURL c)),
                              (''Content-Type'', ''application/x-www-form-urlencoded''),
                              (''Content-Length'',
                               strconv_Itoa (int (length (url_Values_Encode lib ?data)))),
                              (''User-Agent'', userAgent c)],
                           rq_cookies = [], rq_form = ?data\<rparr>"
      obtain r2 w2 where d: "http_Client_Do lib srv (client c) ?req w1 = (r2, w2)"
        by (metis surj_pair)
      have "w' = w2 \<and> c' = c"
        using assms t Inr None d by (auto simp: AcceptDisclaimer_def Let_def split: sum.splits)
      with http_Client_Do_sent(1) [OF d] s1 show ?thesis by auto
    qed
  qed
qed

lemma fetch_document_success:
  assumes "fetch_document lib srv c url w = (Inr doc, w')"
  obtains resp where
    "srv (sent w) (document_GET lib c url w) = Inr resp"
    "sent w' = sent w @ [document_GET lib c url w]"
    "jars w' =
       (case Jar (client c) of None \<Rightarrow> jars w
        | Some a \<Rightarrow>
            if rs_cookies resp = [] then jars w
            else (jars w)(a := jar_SetCookies lib (jars w a) url (rs_cookies resp)))"
proof -
  have nr: "http_NewRequest_error lib ''GET'' url = None"
    using assms by (cases "http_NewRequest_error lib ''GET'' url")
      (auto simp: fetch_document_def http_Client_Get_def)
  let ?req = "\<lparr>rq_method = ''GET'', rq_url = url, rq_headers = [], rq_cookies = [], rq_form = []\<rparr>"
  obtain r1 w1 where d: "http_Client_Do lib srv (client c) ?req w = (r1, w1)" by (metis surj_pair)
  from assms nr d obtain resp where r1: "r1 = Inr resp" and w1: "w' = w1"
    by (cases r1) (auto simp: fetch_document_def http_Client_Get_def split: sum.splits)
  have e: "\<lparr>via = client c, request = (case Jar (client c) of None \<Rightarrow> ?req
              | Some a \<Rightarrow> ?req\<lparr>rq_cookies := rq_cookies ?req @
                    jar_Cookies lib (jars w a) (rq_url ?req)\<rparr>)\<rparr> = document_GET lib c url w"
    by (simp add: document_GET_def split: option.splits)
  from d r1 have "srv (sent w) (document_GET lib c url w) = Inr resp"
    unfolding http_Client_Do_def Let_def e by (auto split: sum.splits)
  moreover from d r1 have "sent w1 = sent w @ [document_GET lib c url w]"
    unfolding http_Client_Do_def Let_def e by (auto split: sum.splits option.splits if_splits)
  moreover from d r1 \<open>srv (sent w) (document_GET lib c url w) = Inr resp\<close>
  have "jars w1 =
       (case Jar (client c) of None \<Rightarrow> jars w
        | Some a \<Rightarrow>
            if rs_cookies resp = [] then jars w
            else (jars w)(a := jar_SetCookies lib (jars w a) url (rs_cookies resp)))"
    unfolding http_Client_Do_def Let_def e by (auto split: sum.splits option.splits if_splits)
  ultimately show ?thesis using that w1 by simp
qed

lemma session_fetch_client:
  "client c' = client c \<Longrightarrow>
   session_fetch lib srv c' url w w' = session_fetch lib srv c url w w'"
  by (simp add: session_fetch_def document_GET_def)

lemma handler_trace:
  assumes ensure: "(if \<not> authed c then AcceptDisclaimer lib srv c w else (None, c, w)) = (None, c', w1)"
    and fetch: "fetch_document lib srv c' url w1 = (Inr doc, w')"
  shows "fetched_after_auth lib srv c url w c' w'"
proof -
  from ensure_authed_client [OF ensure] have cl: "client c' = client c" and au: "authed c'"
    by simp_all
  have f: "session_fetch lib srv c url w1 w'"
    using fetch_document_success [OF fetch] unfolding session_fetch_client [OF cl, symmetric]
    by (auto simp: session_fetch_def)
  show ?thesis
  proof (cases "authed c")
    case True
    with ensure have "w1 = w" by simp
    with f au True show ?thesis by (auto simp: fetched_after_auth_def)
  next
    case False
    with ensure have "AcceptDisclaimer lib srv c w = (None, c', w1)" by simp
    from AcceptDisclaimer_ok [OF this] f au False show ?thesis
      by (auto simp: fetched_after_auth_def)
  qed
qed

lemma handshake_failure:
  assumes "\<not> authed c" and "AcceptDisclaimer lib srv c w = (Some err, c1, w1)"
  shows "HandlePTRSearchResult lib srv c result w = (Inl err, c1, w1)"
    and "HandleAnnualSearchResult lib srv c result w = (Inl err, c1, w1)"
    and "HandlePaperSearchResult lib srv c result w = (Inl err, c1, w1)"
    and "c1 = c"
proof -
  show "HandlePTRSearchResult lib srv c result w = (Inl err, c1, w1)"
    using assms by (simp add: HandlePTRSearchResult_def)
  show "HandleAnnualSearchResult lib srv c result w = (Inl err, c1, w1)"
    using assms by (simp add: HandleAnnualSearchResult_def)
  show "HandlePaperSearchResult lib srv c result w = (Inl err, c1, w1)"
    using assms by (simp add: HandlePaperSearchResult_def)
  show "c1 = c"
    using AcceptDisclaimer_err [OF assms(2)] by (rule conjunct1)
qed

lemma searchReportDataPaged_trace:
  assumes "searchReportDataPaged lib srv c q start len w = (r, w')"
  shows "jars w' = jars w \<and>
         (\<exists>new. sent w' = sent w @ new \<and> length new \<le> 1 \<and>
            (\<forall>e \<in> set new. via e = DefaultClient \<and>
               rq_url (request e) = url_String lib (searchDataURL c) \<and>
               (\<exists>tok. rq_cookies (request e) = [(''csrftoken'', tok)])))"
proof -
  obtain tok w0 where g: "genCSRFToken lib w = (tok, w0)" by (metis surj_pair)
  have w0: "sent w0 = sent w" "jars w0 = jars w" using g by (auto simp: genCSRFToken_def)
  show ?thesis
  proof (cases "http_NewRequest_error lib ''POST'' (url_String lib (searchDataURL c))")
    case (Some err)
    with assms g have "w' = w0" by (simp add: searchReportDataPaged_def)
    with w0 show ?thesis by simp
  next
    case None
    obtain r1 w1 where d: "http_Client_Do lib srv DefaultClient
                     (search_request lib c q start len tok) w0 = (r1, w1)" by (metis surj_pair)
    have w': "w' = w1"
      using assms g None d
      by (auto simp: searchReportDataPaged_def Let_def split: sum.splits if_splits)
    have j: "Jar DefaultClient = None" by (simp add: DefaultClient_def)
    from http_Client_Do_sent(1) [OF d] http_Client_Do_sent(3) [OF d j] w0 w' j
    show ?thesis
      by (simp add: search_request_def Let_def)
  qed
qed

text \<open>The paged search reads no flag: its outcome is the same whatever \<open>authed\<close> is.\<close>

lemma search_row_authed:
  "search_row lib (c\<lparr>authed := b\<rparr>) result s = search_row lib c result s"
  by (simp add: search_row_def cong: sum.case_cong if_cong)

lemma search_rows_authed:
  "search_rows lib (c\<lparr>authed := b\<rparr>) i rows rs = search_rows lib c i rows rs"
  by (induction rows arbitrary: i rs) (simp_all add: search_row_authed split: prod.split bool.split)

lemma searchReportDataPaged_authed:
  "searchReportDataPaged lib srv (c\<lparr>authed := b\<rparr>) q start len w =
   searchReportDataPaged lib srv c q start len w"
  by (simp add: searchReportDataPaged_def search_request_def search_page_results_def
      search_rows_authed cong: sum.case_cong if_cong option.case_cong prod.case_cong)

section \<open>Lazy authentication\<close>

text \<open>
  Claim C8. The three document handlers check the flag \<open>authed\<close> before their own
  request. A handler that returns a result has sent, with the flag set at the start,
  its fetch only; with the flag unset, the two requests of the handshake (the GET and
  the POST of the home page) once, and then its fetch; the flag is set at the end. With
  the flag unset and a handshake that fails, the handler returns the error of the
  handshake in the state in which the handshake ended: it has sent no request of its
  own, and the client is unchanged. The paged search is different: it sends at most one
  request, its POST through the default client to the search-data URL, never a
  handshake, and its outcome does not depend on the flag.
\<close>

theorem handlers_authenticate_lazily:
  "(HandlePTRSearchResult lib srv c result w = (Inr txs, c1, w1) \<longrightarrow>
      (\<exists>u. sr_FileURL result = Some u \<and>
           fetched_after_auth lib srv c (url_String lib u) w c1 w1)) \<and>
   (HandleAnnualSearchResult lib srv c result w = (Inr txs', c2, w2) \<longrightarrow>
      (\<exists>u. sr_FileURL result = Some u \<and>
           fetched_after_auth lib srv c (url_String lib u) w c2 w2)) \<and>
   (HandlePaperSearchResult lib srv c result w = (Inr report, c3, w3) \<longrightarrow>
      (\<exists>u. sr_FileURL result = Some u \<and>
           fetched_after_auth lib srv c
             (url_String lib (u\<lparr>Path := strings_Replace1 (Path u) ''view'' ''print''\<rparr>)) w c3 w3)) \<and>
   (\<not> authed c \<longrightarrow> AcceptDisclaimer lib srv c w = (Some err, c4, w4) \<longrightarrow>
      c4 = c \<and>
      HandlePTRSearchResult lib srv c result w = (Inl err, c4, w4) \<and>
      HandleAnnualSearchResult lib srv c result w = (Inl err, c4, w4) \<and>
      HandlePaperSearchResult lib srv c result w = (Inl err, c4, w4)) \<and>
   (searchReportDataPaged lib srv c q start len w = (r, w5) \<longrightarrow>
      (\<exists>new. sent w5 = sent w @ new \<and> length new \<le> 1 \<and>
         (\<forall>e \<in> set new. via e = DefaultClient \<and>
            rq_url (request e) = url_String lib (searchDataURL c)))) \<and>
   searchReportDataPaged lib srv (c\<lparr>authed := b\<rparr>) q start len w =
     searchReportDataPaged lib srv c q start len w"
proof (intro conjI impI)
  assume "HandlePTRSearchResult lib srv c result w = (Inr txs, c1, w1)"
  then obtain u doc w0 where
    "(if \<not> authed c then AcceptDisclaimer lib srv c w else (None, c, w)) = (None, c1, w0)"
    "sr_FileURL result = Some u"
    "fetch_document lib srv c1 (url_String lib u) w0 = (Inr doc, w1)"
    "txs = ptr_transactions lib c1 (doc_table_rows doc)"
    by (rule HandlePTRSearchResult_success)
  then show "\<exists>u. sr_FileURL result = Some u \<and>
           fetched_after_auth lib srv c (url_String lib u) w c1 w1"
    using handler_trace by blast
next
  assume "HandleAnnualSearchResult lib srv c result w = (Inr txs', c2, w2)"
  then obtain u doc w0 where
    "(if \<not> authed c then AcceptDisclaimer lib srv c w else (None, c, w)) = (None, c2, w0)"
    "sr_FileURL result = Some u"
    "fetch_document lib srv c2 (url_String lib u) w0 = (Inr doc, w2)"
    "txs' = annual_transactions lib c2 (doc_headings doc)"
    by (rule HandleAnnualSearchResult_success)
  then show "\<exists>u. sr_FileURL result = Some u \<and>
           fetched_after_auth lib srv c (url_String lib u) w c2 w2"
    using handler_trace by blast
next
  assume "HandlePaperSearchResult lib srv c result w = (Inr report, c3, w3)"
  then obtain u doc w0 where
    "(if \<not> authed c then AcceptDisclaimer lib srv c w else (None, c, w)) = (None, c3, w0)"
    "sr_FileURL result = Some u"
    "fetch_document lib srv c3
       (url_String lib (u\<lparr>Path := strings_Replace1 (Path u) ''view'' ''print''\<rparr>)) w0 = (Inr doc, w3)"
    "report = paper_pages lib (doc_filing_images doc)"
    by (rule HandlePaperSearchResult_success)
  then show "\<exists>u. sr_FileURL result = Some u \<and>
           fetched_after_auth lib srv c
             (url_String lib (u\<lparr>Path := strings_Replace1 (Path u) ''view'' ''print''\<rparr>)) w c3 w3"
    using handler_trace by blast
next
  assume a: "\<not> authed c" "AcceptDisclaimer lib srv c w = (Some err, c4, w4)"
  show "c4 = c" by (rule handshake_failure(4) [OF a])
  show "HandlePTRSearchResult lib srv c result w = (Inl err, c4, w4)"
    by (rule handshake_failure(1) [OF a])
  show "HandleAnnualSearchResult lib srv c result w = (Inl err, c4, w4)"
    by (rule handshake_failure(2) [OF a])
  show "HandlePaperSearchResult lib srv c result w = (Inl err, c4, w4)"
    by (rule handshake_failure(3) [OF a])
next
  assume "searchReportDataPaged lib srv c q start len w = (r, w5)"
  from searchReportDataPaged_trace [OF this]
  show "\<exists>new. sent w5 = sent w @ new \<and> length new \<le> 1 \<and>
         (\<forall>e \<in> set new. via e = DefaultClient \<and>
            rq_url (request e) = url_String lib (searchDataURL c))"
    by blast
next
  show "searchReportDataPaged lib srv (c\<lparr>authed := b\<rparr>) q start len w =
     searchReportDataPaged lib srv c q start len w"
    by (rule searchReportDataPaged_authed)
qed

theorem handlers_authenticate_lazily_witness:
  "fetched_after_auth ex_lib ex_server ex_client
     (url_String ex_lib (ex_url ''/search/view/ptr/abc-123/'')) ex_world
     (fst (snd ex_ptr_run)) (snd (snd ex_ptr_run)) \<and>
   map (\<lambda>e. (rq_method (request e), rq_url (request e))) (sent (snd (snd ex_ptr_run))) =
     [(''GET'', ''https://efdsearch.senate.gov/search/home/''),
      (''POST'', ''https://efdsearch.senate.gov/search/home/''),
      (''GET'', ''https://efdsearch.senate.gov/search/view/ptr/abc-123/'')] \<and>
   HandlePTRSearchResult ex_lib (page_server ''single'') ex_client
     (ex_result PTRFormat ''/search/view/ptr/abc-123/'') ex_world =
     (Inl (LibraryError ''html''), ex_client, snd (snd ex_failed_handshake)) \<and>
   map (\<lambda>e. (rq_method (request e), rq_url (request e))) (sent (snd (snd ex_failed_handshake))) =
     [(''GET'', ''https://efdsearch.senate.gov/search/home/'')] \<and>
   map via (sent (snd ex_search_page)) = [DefaultClient]"
proof -
  have "fst ex_ptr_run = Inr [aapl]"
    unfolding ex_ptr_run_def by code_simp
  then have p: "HandlePTRSearchResult ex_lib ex_server ex_client
      (ex_result PTRFormat ''/search/view/ptr/abc-123/'') ex_world =
      (Inr [aapl], fst (snd ex_ptr_run), snd (snd ex_ptr_run))"
    by (simp add: ex_ptr_run_def prod_eq_iff)
  have s: "searchReportDataPaged ex_lib ex_server ex_client ex_args 0 100 ex_world =
      (fst ex_search_page, snd ex_search_page)"
    by (simp add: ex_search_page_def)
  have u: "sr_FileURL (ex_result PTRFormat ''/search/view/ptr/abc-123/'') =
      Some (ex_url ''/search/view/ptr/abc-123/'')"
    by (simp add: ex_result_def)
  note t1 = handlers_authenticate_lazily [where lib = ex_lib and srv = ex_server
      and c = ex_client and result = "ex_result PTRFormat ''/search/view/ptr/abc-123/''"
      and w = ex_world and txs = "[aapl]" and ?c1.0 = "fst (snd ex_ptr_run)"
      and ?w1.0 = "snd (snd ex_ptr_run)" and q = ex_args and start = 0 and len = 100
      and r = "fst ex_search_page" and ?w5.0 = "snd ex_search_page"]
  from t1 p u have a: "fetched_after_auth ex_lib ex_server ex_client
     (url_String ex_lib (ex_url ''/search/view/ptr/abc-123/'')) ex_world
     (fst (snd ex_ptr_run)) (snd (snd ex_ptr_run))"
    by auto
  from t1 [THEN conjunct2, THEN conjunct2, THEN conjunct2, THEN conjunct2, THEN conjunct1,
      THEN mp, OF s]
  obtain new where new: "sent (snd ex_search_page) = sent ex_world @ new"
      "\<forall>e \<in> set new. via e = DefaultClient"
    by blast
  have "length (sent (snd ex_search_page)) = 1"
    unfolding ex_search_page_def by code_simp
  moreover have "sent ex_world = []" by (simp add: ex_world_def)
  ultimately have b: "map via (sent (snd ex_search_page)) = [DefaultClient]"
    using new by (cases new) auto
  have "fst ex_failed_handshake = Some (LibraryError ''html'')"
    unfolding ex_failed_handshake_def by code_simp
  then have f: "AcceptDisclaimer ex_lib (page_server ''single'') ex_client ex_world =
      (Some (LibraryError ''html''), fst (snd ex_failed_handshake), snd (snd ex_failed_handshake))"
    by (simp add: ex_failed_handshake_def prod_eq_iff)
  have n: "\<not> authed ex_client" by (simp add: ex_client_def)
  note t2 = handlers_authenticate_lazily [where lib = ex_lib and srv = "page_server ''single''"
      and c = ex_client and result = "ex_result PTRFormat ''/search/view/ptr/abc-123/''"
      and w = ex_world and err = "LibraryError ''html''"
      and ?c4.0 = "fst (snd ex_failed_handshake)" and ?w4.0 = "snd (snd ex_failed_handshake)"]
  note t3 = t2 [THEN conjunct2, THEN conjunct2, THEN conjunct2, THEN conjunct1, THEN mp, THEN mp,
      OF n f]
  from t3 have c4: "fst (snd ex_failed_handshake) = ex_client" by (rule conjunct1)
  from t3 have "HandlePTRSearchResult ex_lib (page_server ''single'') ex_client
     (ex_result PTRFormat ''/search/view/ptr/abc-123/'') ex_world =
     (Inl (LibraryError ''html''), fst (snd ex_failed_handshake), snd (snd ex_failed_handshake))"
    by (rule conjunct2 [THEN conjunct1])
  then have c: "HandlePTRSearchResult ex_lib (page_server ''single'') ex_client
     (ex_result PTRFormat ''/search/view/ptr/abc-123/'') ex_world =
     (Inl (LibraryError ''html''), ex_client, snd (snd ex_failed_handshake))"
    by (simp only: c4)
  have d: "map (\<lambda>e. (rq_method (request e), rq_url (request e))) (sent (snd (snd ex_ptr_run))) =
     [(''GET'', ''https://efdsearch.senate.gov/search/home/''),
      (''POST'', ''https://efdsearch.senate.gov/search/home/''),
      (''GET'', ''https://efdsearch.senate.gov/search/view/ptr/abc-123/'')]"
    unfolding ex_ptr_run_def by code_simp
  have e: "map (\<lambda>e. (rq_method (request e), rq_url (request e)))
       (sent (snd (snd ex_failed_handshake))) =
     [(''GET'', ''https://efdsearch.senate.gov/search/home/'')]"
    unfolding ex_failed_handshake_def by code_simp
  from a d c e b show ?thesis by (intro conjI)
qed

text \<open>
  The claim as stated fails for the paged search: with the flag unset, the search of
  the example sends its POST and nothing else, no handshake before it.
\<close>

theorem paged_search_runs_no_handshake:
  "\<not> authed ex_client \<and>
   fst ex_search_page = Inr ([], - 100) \<and>
   map (\<lambda>e. (rq_method (request e), rq_url (request e))) (sent (snd ex_search_page)) =
     [(''POST'', ''https://efdsearch.senate.gov/search/report/data/'')]"
  by code_simp

section \<open>The cookie store\<close>

text \<open>
  Claim C10. The POST of the paged search is sent through the default client, which
  has no cookie jar: the only cookie of the request is the token generated for it, and
  no jar is changed by the call. A handler that returns a result has made its fetch
  through the client of the session: the cookies of the request are those the jar of
  the session gives for the URL, and the cookies of the answer are stored in that jar.
  The client of the session is made with the jar of the session, which starts empty.
\<close>

theorem search_bypasses_session_cookies:
  "(searchReportDataPaged lib srv c q start len w = (r, w1) \<longrightarrow>
      jars w1 = jars w \<and>
      (\<exists>new. sent w1 = sent w @ new \<and> length new \<le> 1 \<and>
         (\<forall>e \<in> set new. via e = DefaultClient \<and> Jar (via e) = None \<and>
            (\<exists>tok. rq_cookies (request e) = [(''csrftoken'', tok)])))) \<and>
   (HandlePTRSearchResult lib srv c result w = (Inr txs, c2, w2) \<longrightarrow>
      (\<exists>u w0. sr_FileURL result = Some u \<and>
         session_fetch lib srv c (url_String lib u) w0 w2 \<and> (authed c \<longrightarrow> w0 = w))) \<and>
   (HandleAnnualSearchResult lib srv c result w = (Inr txs', c3, w3) \<longrightarrow>
      (\<exists>u w0. sr_FileURL result = Some u \<and>
         session_fetch lib srv c (url_String lib u) w0 w3 \<and> (authed c \<longrightarrow> w0 = w))) \<and>
   (HandlePaperSearchResult lib srv c result w = (Inr report, c4, w4) \<longrightarrow>
      (\<exists>u w0. sr_FileURL result = Some u \<and>
         session_fetch lib srv c
           (url_String lib (u\<lparr>Path := strings_Replace1 (Path u) ''view'' ''print''\<rparr>)) w0 w4 \<and>
         (authed c \<longrightarrow> w0 = w))) \<and>
   (CreateEFDClient lib ua layout w = (c0, w5) \<longrightarrow>
      client c0 = \<lparr>Jar = Some (jar c0)\<rparr> \<and> jars w5 (jar c0) = [] \<and> \<not> authed c0) \<and>
   via (document_GET lib c url w) = client c \<and>
   (Jar (client c) = Some a \<longrightarrow>
      rq_cookies (request (document_GET lib c url w)) = jar_Cookies lib (jars w a) url)"
proof (intro conjI impI)
  assume s: "searchReportDataPaged lib srv c q start len w = (r, w1)"
  from searchReportDataPaged_trace [OF s] show "jars w1 = jars w" by (rule conjunct1)
  from searchReportDataPaged_trace [OF s]
  show "\<exists>new. sent w1 = sent w @ new \<and> length new \<le> 1 \<and>
         (\<forall>e \<in> set new. via e = DefaultClient \<and> Jar (via e) = None \<and>
            (\<exists>tok. rq_cookies (request e) = [(''csrftoken'', tok)]))"
    by (auto simp: DefaultClient_def)
next
  assume "HandlePTRSearchResult lib srv c result w = (Inr txs, c2, w2)"
  then obtain u doc w0 where
    "(if \<not> authed c then AcceptDisclaimer lib srv c w else (None, c, w)) = (None, c2, w0)"
    "sr_FileURL result = Some u"
    "fetch_document lib srv c2 (url_String lib u) w0 = (Inr doc, w2)"
    "txs = ptr_transactions lib c2 (doc_table_rows doc)"
    by (rule HandlePTRSearchResult_success)
  with handler_trace have "sr_FileURL result = Some u"
    "fetched_after_auth lib srv c (url_String lib u) w c2 w2" by blast+
  then show "\<exists>u w0. sr_FileURL result = Some u \<and>
         session_fetch lib srv c (url_String lib u) w0 w2 \<and> (authed c \<longrightarrow> w0 = w)"
    unfolding fetched_after_auth_def by (cases "authed c") auto
next
  assume "HandleAnnualSearchResult lib srv c result w = (Inr txs', c3, w3)"
  then obtain u doc w0 where
    "(if \<not> authed c then AcceptDisclaimer lib srv c w else (None, c, w)) = (None, c3, w0)"
    "sr_FileURL result = Some u"
    "fetch_document lib srv c3 (url_String lib u) w0 = (Inr doc, w3)"
    "txs' = annual_transactions lib c3 (doc_headings doc)"
    by (rule HandleAnnualSearchResult_success)
  with handler_trace have "sr_FileURL result = Some u"
    "fetched_after_auth lib srv c (url_String lib u) w c3 w3" by blast+
  then show "\<exists>u w0. sr_FileURL result = Some u \<and>
         session_fetch lib srv c (url_String lib u) w0 w3 \<and> (authed c \<longrightarrow> w0 = w)"
    unfolding fetched_after_auth_def by (cases "authed c") auto
next
  assume "HandlePaperSearchResult lib srv c result w = (Inr report, c4, w4)"
  then obtain u doc w0 where
    "(if \<not> authed c then AcceptDisclaimer lib srv c w else (None, c, w)) = (None, c4, w0)"
    "sr_FileURL result = Some u"
    "fetch_document lib srv c4
       (url_String lib (u\<lparr>Path := strings_Replace1 (Path u) ''view'' ''print''\<rparr>)) w0 = (Inr doc, w4)"
    "report = paper_pages lib (doc_filing_images doc)"
    by (rule HandlePaperSearchResult_success)
  with handler_trace have "sr_FileURL result = Some u"
    "fetched_after_auth lib srv c
       (url_String lib (u\<lparr>Path := strings_Replace1 (Path u) ''view'' ''print''\<rparr>)) w c4 w4"
    by blast+
  then show "\<exists>u w0. sr_FileURL result = Some u \<and>
         session_fetch lib srv c
           (url_String lib (u\<lparr>Path := strings_Replace1 (Path u) ''view'' ''print''\<rparr>)) w0 w4 \<and>
         (authed c \<longrightarrow> w0 = w)"
    unfolding fetched_after_auth_def by (cases "authed c") auto
next
  assume cr: "CreateEFDClient lib ua layout w = (c0, w5)"
  then show "client c0 = \<lparr>Jar = Some (jar c0)\<rparr>" "jars w5 (jar c0) = []" "\<not> authed c0"
    by (auto simp: CreateEFDClient_def initParam_def Let_def)
next
  show "via (document_GET lib c url w) = client c" by (simp add: document_GET_def)
next
  assume "Jar (client c) = Some a"
  then show "rq_cookies (request (document_GET lib c url w)) = jar_Cookies lib (jars w a) url"
    by (simp add: document_GET_def)
qed

theorem search_bypasses_session_cookies_witness:
  "jars (snd ex_search_page) = jars ex_world \<and>
   map (\<lambda>e. (via e, rq_url (request e), map fst (rq_cookies (request e))))
       (sent (snd ex_search_page)) =
     [(\<lparr>Jar = None\<rparr>, ''https://efdsearch.senate.gov/search/report/data/'', [''csrftoken''])] \<and>
   session_fetch ex_lib ex_server (ex_client\<lparr>authed := True\<rparr>)
     (url_String ex_lib (ex_url ''/search/view/ptr/abc-123/'')) ex_world (snd (snd ex_authed_run)) \<and>
   client (fst (CreateEFDClient ex_lib ''ua'' ''01/02/2006'' ex_world)) = \<lparr>Jar = Some 0\<rparr> \<and>
   via (document_GET ex_lib ex_client ''https://efdsearch.senate.gov/search/view/ptr/abc-123/''
          (snd (snd ex_ptr_run))) = \<lparr>Jar = Some 0\<rparr> \<and>
   rq_cookies (request (document_GET ex_lib ex_client
          ''https://efdsearch.senate.gov/search/view/ptr/abc-123/'' (snd (snd ex_ptr_run)))) =
     jar_Cookies ex_lib (jars (snd (snd ex_ptr_run)) 0)
       ''https://efdsearch.senate.gov/search/view/ptr/abc-123/''"
proof -
  have s: "searchReportDataPaged ex_lib ex_server ex_client ex_args 0 100 ex_world =
      (fst ex_search_page, snd ex_search_page)"
    by (simp add: ex_search_page_def)
  have "fst ex_authed_run = Inr [aapl]"
    unfolding ex_authed_run_def by code_simp
  then have p: "HandlePTRSearchResult ex_lib ex_server (ex_client\<lparr>authed := True\<rparr>)
      (ex_result PTRFormat ''/search/view/ptr/abc-123/'') ex_world =
      (Inr [aapl], fst (snd ex_authed_run), snd (snd ex_authed_run))"
    by (simp add: ex_authed_run_def prod_eq_iff)
  have u: "sr_FileURL (ex_result PTRFormat ''/search/view/ptr/abc-123/'') =
      Some (ex_url ''/search/view/ptr/abc-123/'')"
    by (simp add: ex_result_def)
  have au: "authed (ex_client\<lparr>authed := True\<rparr>)" by simp
  note t1 = search_bypasses_session_cookies [where lib = ex_lib and srv = ex_server
      and c = "ex_client\<lparr>authed := True\<rparr>"
      and result = "ex_result PTRFormat ''/search/view/ptr/abc-123/''"
      and w = ex_world and txs = "[aapl]" and ?c2.0 = "fst (snd ex_authed_run)"
      and ?w2.0 = "snd (snd ex_authed_run)"]
  from t1 p u au have a: "session_fetch ex_lib ex_server (ex_client\<lparr>authed := True\<rparr>)
     (url_String ex_lib (ex_url ''/search/view/ptr/abc-123/'')) ex_world (snd (snd ex_authed_run))"
    by auto
  have cj: "Jar (client ex_client) = Some 0" by (simp add: ex_client_def)
  have cl: "client ex_client = \<lparr>Jar = Some 0\<rparr>" by (simp add: ex_client_def)
  have cr: "CreateEFDClient ex_lib ''ua'' ''01/02/2006'' ex_world =
      (fst (CreateEFDClient ex_lib ''ua'' ''01/02/2006'' ex_world),
       snd (CreateEFDClient ex_lib ''ua'' ''01/02/2006'' ex_world))"
    by simp
  have j0: "jar (fst (CreateEFDClient ex_lib ''ua'' ''01/02/2006'' ex_world)) = 0"
    by code_simp
  note t2 = search_bypasses_session_cookies [where lib = ex_lib and srv = ex_server
      and c = ex_client and q = ex_args and start = 0 and len = 100
      and w = ex_world and r = "fst ex_search_page" and ?w1.0 = "snd ex_search_page"
      and ua = "''ua''" and layout = "''01/02/2006''"
      and ?c0.0 = "fst (CreateEFDClient ex_lib ''ua'' ''01/02/2006'' ex_world)"
      and ?w5.0 = "snd (CreateEFDClient ex_lib ''ua'' ''01/02/2006'' ex_world)"]
  from t2 s have b: "jars (snd ex_search_page) = jars ex_world" by blast
  from t2 cr j0 have c: "client (fst (CreateEFDClient ex_lib ''ua'' ''01/02/2006'' ex_world)) =
      \<lparr>Jar = Some 0\<rparr>"
    by simp
  note t3 = search_bypasses_session_cookies [where lib = ex_lib and c = ex_client
      and url = "''https://efdsearch.senate.gov/search/view/ptr/abc-123/''"
      and w = "snd (snd ex_ptr_run)" and a = 0]
  from t3 cl have d: "via (document_GET ex_lib ex_client
      ''https://efdsearch.senate.gov/search/view/ptr/abc-123/'' (snd (snd ex_ptr_run))) =
      \<lparr>Jar = Some 0\<rparr>"
    by simp
  from t3 cj have e: "rq_cookies (request (document_GET ex_lib ex_client
          ''https://efdsearch.senate.gov/search/view/ptr/abc-123/'' (snd (snd ex_ptr_run)))) =
     jar_Cookies ex_lib (jars (snd (snd ex_ptr_run)) 0)
       ''https://efdsearch.senate.gov/search/view/ptr/abc-123/''"
    by blast
  have f: "map (\<lambda>e. (via e, rq_url (request e), map fst (rq_cookies (request e))))
       (sent (snd ex_search_page)) =
     [(\<lparr>Jar = None\<rparr>, ''https://efdsearch.senate.gov/search/report/data/'', [''csrftoken''])]"
    unfolding ex_search_page_def by code_simp
  from b f a c d e show ?thesis by (intro conjI)
qed

section \<open>Serialization round trip\<close>

text \<open>
  Claim C6. The claim has the decoded report reproduce the URL string of the document
  and, for a Paper report, the URL strings of the pages. \<open>ReportToJson\<close> writes them,
  but \<open>JSONURL.UnmarshalJSON\<close> has a value receiver: it assigns the parsed URL to its
  own copy, so that decoding into a \<open>ReportJson\<close> leaves \<open>ReportURL.URL\<close> and the
  \<open>URL\<close> of every page nil. The names, the dates and the text fields of the
  transactions come back as they were; \<open>Valid\<close> is tagged \<open>"-"\<close>, is not written, and
  is false after decoding.
\<close>

theorem decoded_report_has_no_url:
  "ReportToJson ex_lib (ex_result PTRFormat ''/search/view/ptr/abc-123/'')
     \<lparr>pr_ReportFormat = PTRFormat, pr_Transactions = Some [aapl], pr_Pages = \<lparr>PageURLs = []\<rparr>\<rparr> =
     Inr (JObject
       [(''firstname'', JString ''jane''), (''lastname'', JString ''doe''),
        (''reportname'', JString ''Report''),
        (''reporturl'', JString ''https://efdsearch.senate.gov/search/view/ptr/abc-123/''),
        (''datesubmitted'', JString ''2020-01-02T00:00:00Z''),
        (''reportformat'', JNumber 2), (''reportid'', JString ''abc-123''),
        (''transactions'',
         JArray
          [JObject
            [(''date'', JString ''2020-01-02T00:00:00Z''),
             (''owner'', JString ''Self''), (''ticker'', JString ''AAPL''),
             (''assetname'', JString ''Apple Inc.''),
             (''assettype'', JString ''Stock''),
             (''type'', JString ''Purchase''),
             (''amount'', JString ''$1,001 - $15,000''),
             (''comment'', JString ''none'')]]),
        (''pages'', JNull)]) \<and>
   ReportJson_Unmarshal ex_lib (JObject
       [(''firstname'', JString ''jane''), (''lastname'', JString ''doe''),
        (''reportname'', JString ''Report''),
        (''reporturl'', JString ''https://efdsearch.senate.gov/search/view/ptr/abc-123/''),
        (''datesubmitted'', JString ''2020-01-02T00:00:00Z''),
        (''reportformat'', JNumber 2), (''reportid'', JString ''abc-123''),
        (''transactions'',
         JArray
          [JObject
            [(''date'', JString ''2020-01-02T00:00:00Z''),
             (''owner'', JString ''Self''), (''ticker'', JString ''AAPL''),
             (''assetname'', JString ''Apple Inc.''),
             (''assettype'', JString ''Stock''),
             (''type'', JString ''Purchase''),
             (''amount'', JString ''$1,001 - $15,000''),
             (''comment'', JString ''none'')]]),
        (''pages'', JNull)]) =
     Inr \<lparr>rj_FirstName = ''jane'', rj_LastName = ''doe'', rj_ReportName = ''Report'',
          rj_ReportURL = \<lparr>ju_URL = None\<rparr>, rj_DateSubmitted = Instant 20200102,
          rj_ReportFormat = PTRFormat, rj_ReportID = ''abc-123'',
          rj_Transactions = Some [aapl\<lparr>tx_Valid := False\<rparr>], rj_Pages = None\<rparr> \<and>
   ReportToJson ex_lib (ex_result PaperFormat ''/search/view/paper/abc-789/'')
     \<lparr>pr_ReportFormat = PaperFormat, pr_Transactions = None,
      pr_Pages = \<lparr>PageURLs = [Some page1]\<rparr>\<rparr> =
     Inr (JObject
       [(''firstname'', JString ''jane''), (''lastname'', JString ''doe''),
        (''reportname'', JString ''Report''),
        (''reporturl'', JString ''https://efdsearch.senate.gov/search/view/paper/abc-789/''),
        (''datesubmitted'', JString ''2020-01-02T00:00:00Z''),
        (''reportformat'', JNumber 5), (''reportid'', JString ''abc-789''),
        (''transactions'', JNull),
        (''pages'', JArray [JString ''/media/page1.png''])]) \<and>
   ReportJson_Unmarshal ex_lib (JObject
       [(''firstname'', JString ''jane''), (''lastname'', JString ''doe''),
        (''reportname'', JString ''Report''),
        (''reporturl'', JString ''https://efdsearch.senate.gov/search/view/paper/abc-789/''),
        (''datesubmitted'', JString ''2020-01-02T00:00:00Z''),
        (''reportformat'', JNumber 5), (''reportid'', JString ''abc-789''),
        (''transactions'', JNull),
        (''pages'', JArray [JString ''/media/page1.png''])]) =
     Inr \<lparr>rj_FirstName = ''jane'', rj_LastName = ''doe'', rj_ReportName = ''Report'',
          rj_ReportURL = \<lparr>ju_URL = None\<rparr>, rj_DateSubmitted = Instant 20200102,
          rj_ReportFormat = PaperFormat, rj_ReportID = ''abc-789'',
          rj_Transactions = None, rj_Pages = Some [\<lparr>ju_URL = None\<rparr>]\<rparr>"
  by code_simp

end
